theory Spec2Isabelle
  imports Main
begin

section \<open>Errors, formatted messages and provider data\<close>

text \<open>
  Go error values. \<open>GoogleapiError code msg\<close> is a \<^verbatim>\<open>*googleapi.Error\<close> with its
  \<^verbatim>\<open>Code\<close>; \<open>OtherError\<close> is an error of any other dynamic type (it carries no provider
  status code); \<open>Errorf fmt args\<close> is the value built by \<^verbatim>\<open>fmt.Errorf(fmt, args...)\<close>.
\<close>

datatype arg = S string | I int | E error
and error = GoogleapiError int string | OtherError string | Errorf string "arg list"

text \<open>A Go call either returns its results or panics (index out of range).\<close>

datatype 'a go = Return 'a | Panic

text \<open>
  The parts of \<^verbatim>\<open>compute.Operation\<close> and \<^verbatim>\<open>compute.Instance\<close> that the program reads.
  \<open>Error = None\<close> is the nil \<^verbatim>\<open>operation.Error\<close>.
\<close>

record Operation =
  Status :: string
  Error :: "string option"

record AccessConfig =
  NatIP :: string

record NetworkInterface =
  AccessConfigs :: "AccessConfig list"

record AttachedDisk =
  Boot :: bool
  Source :: string

record Instance =
  NetworkInterfaces :: "NetworkInterface list"
  Disks :: "AttachedDisk list"

text \<open>cloud.go: \<^verbatim>\<open>type InstanceInfo struct { IP string; DiskID string }\<close>.\<close>

record InstanceInfo =
  IP :: string
  DiskID :: string

definition InstanceInfo_zero :: InstanceInfo where
  "InstanceInfo_zero = \<lparr>IP = '''', DiskID = ''''\<rparr>"

section \<open>The compute service as a script of responses\<close>

text \<open>
  The remote service is outside the program. Each request is answered by the script:
  the \<open>k\<close>-th \<^verbatim>\<open>Do()\<close> of a submission (numbered from 0 within one provider call) returns
  an error or the name of the operation it started, the \<open>k\<close>-th
  \<^verbatim>\<open>ZoneOperations.Get\<close> of an operation returns an error or its status, and
  \<^verbatim>\<open>Instances.Get\<close> returns an error or the instance description.
\<close>

record Service =
  Instances_Insert :: "string \<Rightarrow> string \<Rightarrow> nat \<Rightarrow> error + string"
  Instances_Delete :: "string \<Rightarrow> string \<Rightarrow> nat \<Rightarrow> error + string"
  Disks_Delete :: "string \<Rightarrow> string \<Rightarrow> nat \<Rightarrow> error + string"
  ZoneOperations_Get :: "string \<Rightarrow> string \<Rightarrow> nat \<Rightarrow> error + Operation"
  Instances_Get :: "string \<Rightarrow> string \<Rightarrow> error + Instance"

text \<open>
  What a provider call does besides returning: requests sent, lines printed
  (\<open>Printf\<close>), lines written by \<^verbatim>\<open>logger\<close> (\<open>Logged\<close>, in the earlier main.go only) and
  sleeps (in seconds, the unit \<^verbatim>\<open>time.Second\<close> of every wait in the source), in order.
\<close>

datatype op_kind = InstanceCreate | InstanceDelete | DiskDelete

datatype gcp_event =
    Submitted op_kind nat
  | Polled string nat
  | Fetched string
  | Printf string "arg list"
  | Logged string "arg list"
  | Slept nat

definition submissions :: "gcp_event list \<Rightarrow> nat list" where
  "submissions tr = concat (map (\<lambda>ev. case ev of Submitted _ k \<Rightarrow> [k] | _ \<Rightarrow> []) tr)"

definition polls :: "gcp_event list \<Rightarrow> nat" where
  "polls tr = length (filter (\<lambda>ev. case ev of Polled _ _ \<Rightarrow> True | _ \<Rightarrow> False) tr)"

definition sleeps :: "gcp_event list \<Rightarrow> nat list" where
  "sleeps tr = concat (map (\<lambda>ev. case ev of Slept d \<Rightarrow> [d] | _ \<Rightarrow> []) tr)"

section \<open>Retry classification and the operation waiter\<close>

text \<open>
  The test of all three retry loops:
  \<^verbatim>\<open>if gerr, ok := err.(*googleapi.Error); ok && gerr.Code >= 500\<close>.
\<close>

fun retryable :: "error \<Rightarrow> bool" where
  "retryable (GoogleapiError code msg) = (code \<ge> 500)"
| "retryable (OtherError msg) = False"
| "retryable (Errorf f as) = False"

definition maxRetries :: nat where
  "maxRetries = 5"

fun status_check_fmt :: "op_kind \<Rightarrow> string" where
  "status_check_fmt InstanceCreate = ''failed to check operation status: %v''"
| "status_check_fmt InstanceDelete = ''failed to check delete operation status: %v''"
| "status_check_fmt DiskDelete = ''failed to check disk delete operation status: %v''"

fun operation_failed_fmt :: "op_kind \<Rightarrow> string" where
  "operation_failed_fmt InstanceCreate = ''operation failed: %v''"
| "operation_failed_fmt InstanceDelete = ''delete operation failed: %v''"
| "operation_failed_fmt DiskDelete = ''disk delete operation failed: %v''"

fun waiting_fmt :: "op_kind \<Rightarrow> string" where
  "waiting_fmt InstanceCreate = ''Waiting for instance creation (%s)...\<newline>''"
| "waiting_fmt InstanceDelete = ''Waiting for instance deletion (%s)...\<newline>''"
| "waiting_fmt DiskDelete = ''Waiting for disk deletion (%s)...\<newline>''"

text \<open>
  The inner \<^verbatim>\<open>for { ... }\<close> of CreateInstance, DeleteInstance and DeleteDisk: the three
  copies differ in their messages only. Poll \<open>k\<close> fetches the status; a fetch error and a
  \<^verbatim>\<open>DONE\<close> status end the loop, anything else prints, sleeps two seconds and polls
  again. The loop has no bound, so the waiter is a partial function: \<open>None\<close> is a wait
  that never returns. The result is the error returned (\<open>None\<close> of the inner option is
  success) and the events so far.
\<close>

partial_function (option) wait_operation ::
  "op_kind \<Rightarrow> (nat \<Rightarrow> error + Operation) \<Rightarrow> string \<Rightarrow> nat \<Rightarrow> gcp_event list
     \<Rightarrow> (error option \<times> gcp_event list) option"
where
  "wait_operation kind get opname k tr =
     (case get k of
        Inl err \<Rightarrow> Some (Some (Errorf (status_check_fmt kind) [E err]), tr @ [Polled opname k])
      | Inr operation \<Rightarrow>
          if Status operation = ''DONE'' then
            (case Error operation of
               Some operr \<Rightarrow>
                 Some (Some (Errorf (operation_failed_fmt kind) [S operr]), tr @ [Polled opname k])
             | None \<Rightarrow> Some (None, tr @ [Polled opname k]))
          else wait_operation kind get opname (Suc k)
                 (tr @ [Polled opname k, Printf (waiting_fmt kind) [S (Status operation)], Slept 2]))"

section \<open>GCPProvider: CreateInstance, DeleteInstance, DeleteDisk\<close>

text \<open>
  \<^verbatim>\<open>ip := instanceInfo.NetworkInterfaces[0].AccessConfigs[0].NatIP\<close>: indexing an empty
  slice panics.
\<close>

definition first_NatIP :: "Instance \<Rightarrow> string go" where
  "first_NatIP instance =
     (case NetworkInterfaces instance of
        [] \<Rightarrow> Panic
      | ni # _ \<Rightarrow> (case AccessConfigs ni of [] \<Rightarrow> Panic | ac # _ \<Rightarrow> Return (NatIP ac)))"

text \<open>
  \<^verbatim>\<open>for attempt := range maxRetries\<close>. The wait after a retryable error is
  \<^verbatim>\<open>time.Duration(1<<uint(attempt)) * time.Second\<close>; with \<open>attempt < 5\<close> nothing
  overflows, so it is \<open>2 ^ attempt\<close> seconds.
\<close>

function CreateInstance_loop ::
  "Service \<Rightarrow> string \<Rightarrow> string \<Rightarrow> nat \<Rightarrow> gcp_event list
     \<Rightarrow> ((string \<times> string \<times> error option) go \<times> gcp_event list) option"
where
  "CreateInstance_loop svc name zone attempt tr =
     (if attempt < maxRetries then
        (case Instances_Insert svc zone name attempt of
           Inr opname \<Rightarrow>
             (case wait_operation InstanceCreate (ZoneOperations_Get svc zone opname) opname 0
                     (tr @ [Submitted InstanceCreate attempt]) of
                None \<Rightarrow> None
              | Some (Some e, tr') \<Rightarrow> Some (Return ('''', '''', Some e), tr')
              | Some (None, tr') \<Rightarrow>
                  (case Instances_Get svc zone name of
                     Inl err \<Rightarrow>
                       Some (Return ('''', '''',
                               Some (Errorf ''failed to get instance info: %v'' [E err])),
                             tr' @ [Fetched name])
                   | Inr instanceInfo \<Rightarrow>
                       (case first_NatIP instanceInfo of
                          Panic \<Rightarrow> Some (Panic, tr' @ [Fetched name])
                        | Return ip \<Rightarrow> Some (Return (name, ip, None), tr' @ [Fetched name]))))
         | Inl err \<Rightarrow>
             if retryable err then
               CreateInstance_loop svc name zone (Suc attempt)
                 (tr @ [Submitted InstanceCreate attempt,
                        Printf ''Create retryable error: (%d/%d): %v, waiting %v\<newline>''
                          [I (int attempt + 1), I (int maxRetries), E err, I (2 ^ attempt)],
                        Slept (2 ^ attempt)])
             else Some (Return ('''', '''', Some (Errorf ''non-retryable error: %v'' [E err])),
                        tr @ [Submitted InstanceCreate attempt]))
      else Some (Return ('''', '''',
                   Some (Errorf ''failed to create instance after %d retries'' [I (int maxRetries)])),
                 tr))"
  by pat_completeness auto
termination
  by (relation "measure (\<lambda>(svc, name, zone, attempt, tr). maxRetries - attempt)") auto

definition GCPProvider_CreateInstance ::
  "Service \<Rightarrow> string \<Rightarrow> string \<Rightarrow> string
     \<Rightarrow> ((string \<times> string \<times> error option) go \<times> gcp_event list) option"
where
  "GCPProvider_CreateInstance svc name zone machineType = CreateInstance_loop svc name zone 0 []"

function DeleteInstance_loop ::
  "Service \<Rightarrow> string \<Rightarrow> string \<Rightarrow> nat \<Rightarrow> gcp_event list
     \<Rightarrow> (error option \<times> gcp_event list) option"
where
  "DeleteInstance_loop svc zone instanceID attempt tr =
     (if attempt < maxRetries then
        (case Instances_Delete svc zone instanceID attempt of
           Inr opname \<Rightarrow>
             (case wait_operation InstanceDelete (ZoneOperations_Get svc zone opname) opname 0
                     (tr @ [Submitted InstanceDelete attempt]) of
                None \<Rightarrow> None
              | Some (Some e, tr') \<Rightarrow> Some (Some e, tr')
              | Some (None, tr') \<Rightarrow>
                  Some (None, tr' @ [Printf ''Instance %s deleted successfully\<newline>'' [S instanceID]]))
         | Inl err \<Rightarrow>
             if retryable err then
               DeleteInstance_loop svc zone instanceID (Suc attempt)
                 (tr @ [Submitted InstanceDelete attempt,
                        Printf ''Delete retryable error (%d/%d): %v, waiting %v, waiting %v\<newline>''
                          [I (int attempt + 1), I (int maxRetries), E err,
                           I (2 ^ attempt), I (2 ^ attempt)],
                        Slept (2 ^ attempt)])
             else Some (Some (Errorf ''non-retryable error: %v'' [E err]),
                        tr @ [Submitted InstanceDelete attempt]))
      else Some (Some (Errorf ''failed to delete instance after %d retries'' [I (int maxRetries)]),
                 tr))"
  by pat_completeness auto
termination
  by (relation "measure (\<lambda>(svc, zone, instanceID, attempt, tr). maxRetries - attempt)") auto

definition GCPProvider_DeleteInstance ::
  "Service \<Rightarrow> string \<Rightarrow> string \<Rightarrow> (error option \<times> gcp_event list) option"
where
  "GCPProvider_DeleteInstance svc zone instanceID =
     DeleteInstance_loop svc zone instanceID 0
       [Printf ''Attempting to delete instance %s in zone %s\<newline>'' [S instanceID, S zone]]"

function DeleteDisk_loop ::
  "Service \<Rightarrow> string \<Rightarrow> string \<Rightarrow> nat \<Rightarrow> gcp_event list
     \<Rightarrow> (error option \<times> gcp_event list) option"
where
  "DeleteDisk_loop svc zone diskID attempt tr =
     (if attempt < maxRetries then
        (case Disks_Delete svc zone diskID attempt of
           Inr opname \<Rightarrow>
             (case wait_operation DiskDelete (ZoneOperations_Get svc zone opname) opname 0
                     (tr @ [Submitted DiskDelete attempt]) of
                None \<Rightarrow> None
              | Some (Some e, tr') \<Rightarrow> Some (Some e, tr')
              | Some (None, tr') \<Rightarrow>
                  Some (None, tr' @ [Printf ''Disk %s deleted successfully\<newline>'' [S diskID]]))
         | Inl err \<Rightarrow>
             if retryable err then
               DeleteDisk_loop svc zone diskID (Suc attempt)
                 (tr @ [Submitted DiskDelete attempt,
                        Printf ''Disk delete retryable error (%d/%d): %v, waiting %v, waiting %v\<newline>''
                          [I (int attempt + 1), I (int maxRetries), E err,
                           I (2 ^ attempt), I (2 ^ attempt)],
                        Slept (2 ^ attempt)])
             else Some (Some (Errorf ''non-retryable error deleteing disk: %v'' [E err]),
                        tr @ [Submitted DiskDelete attempt]))
      else Some (Some (Errorf ''failed to delete disk after %d retries'' [I (int maxRetries)]),
                 tr))"
  by pat_completeness auto
termination
  by (relation "measure (\<lambda>(svc, zone, diskID, attempt, tr). maxRetries - attempt)") auto

definition GCPProvider_DeleteDisk ::
  "Service \<Rightarrow> string \<Rightarrow> string \<Rightarrow> (error option \<times> gcp_event list) option"
where
  "GCPProvider_DeleteDisk svc zone diskID =
     DeleteDisk_loop svc zone diskID 0
       [Printf ''attempting to delete disk %s in zone %s\<newline>'' [S diskID, S zone]]"

section \<open>GCPProvider.GetInstanceInfo\<close>

text \<open>
  \<^verbatim>\<open>strings.Split(s, "/")\<close> for a separator of one byte: the pieces between the
  separators, one more than there are separators, so never an empty slice. \<open>cur\<close> holds
  the current piece, reversed.
\<close>

fun Split_from :: "string \<Rightarrow> char \<Rightarrow> string \<Rightarrow> string list" where
  "Split_from cur sep [] = [rev cur]"
| "Split_from cur sep (c # cs) =
     (if c = sep then rev cur # Split_from [] sep cs else Split_from (c # cur) sep cs)"

definition Split :: "string \<Rightarrow> char \<Rightarrow> string list" where
  "Split s sep = Split_from [] sep s"

text \<open>
  The loop over \<^verbatim>\<open>instance.Disks\<close>: the first disk with \<^verbatim>\<open>Boot\<close> sets
  \<^verbatim>\<open>info.DiskID = parts[len(parts)-1]\<close> and breaks; \<open>d\<close> is the value of
  \<^verbatim>\<open>info.DiskID\<close> when no disk is a boot disk. \<open>Split\<close> returns at least one piece,
  so the index is in range and is \<open>last\<close>.
\<close>

fun boot_DiskID :: "AttachedDisk list \<Rightarrow> string \<Rightarrow> string" where
  "boot_DiskID [] d = d"
| "boot_DiskID (disk # disks) d =
     (if Boot disk then last (Split (Source disk) CHR ''/'') else boot_DiskID disks d)"

definition GCPProvider_GetInstanceInfo ::
  "Service \<Rightarrow> string \<Rightarrow> string \<Rightarrow> (InstanceInfo \<times> error option) go"
where
  "GCPProvider_GetInstanceInfo svc zone instanceID =
     (case Instances_Get svc zone instanceID of
        Inl err \<Rightarrow>
          Return (InstanceInfo_zero, Some (Errorf ''failed to get instance info: %v'' [E err]))
      | Inr instance \<Rightarrow>
          (case first_NatIP instance of
             Panic \<Rightarrow> Panic
           | Return ip \<Rightarrow>
               (let info = \<lparr>IP = ip, DiskID = boot_DiskID (Disks instance) ''''\<rparr>
                in if DiskID info = ''''
                   then Return (InstanceInfo_zero,
                          Some (Errorf ''no boot disk found for instance %s'' [S instanceID]))
                   else Return (info, None))))"

text \<open>
  The last path segment of an identifier, in the words of the specification: what
  follows the last \<^verbatim>\<open>/\<close> (the whole identifier when it has none).
\<close>

definition last_segment :: "string \<Rightarrow> string" where
  "last_segment s = rev (takeWhile (\<lambda>c. c \<noteq> CHR ''/'') (rev s))"

section \<open>The earlier main.go: GCPProvider.DeleteInstance\<close>

text \<open>
  The repository also holds the earlier single-file program. Its
  \<^verbatim>\<open>GCPProvider.DeleteInstance\<close> deletes the instance and then its boot disk in one call;
  it is called \<open>legacy_DeleteInstance\<close> here to tell it from the method of gcp.go.

  The polling loop of its disk step has the messages of DeleteDisk except for the
  waiting line.
\<close>

partial_function (option) legacy_wait_disk ::
  "(nat \<Rightarrow> error + Operation) \<Rightarrow> string \<Rightarrow> nat \<Rightarrow> gcp_event list
     \<Rightarrow> (error option \<times> gcp_event list) option"
where
  "legacy_wait_disk get opname k tr =
     (case get k of
        Inl err \<Rightarrow>
          Some (Some (Errorf ''failed to check disk delete operation status: %v'' [E err]),
                tr @ [Polled opname k])
      | Inr operation \<Rightarrow>
          if Status operation = ''DONE'' then
            (case Error operation of
               Some operr \<Rightarrow>
                 Some (Some (Errorf ''disk delete operation failed: %v'' [S operr]),
                       tr @ [Polled opname k])
             | None \<Rightarrow> Some (None, tr @ [Polled opname k]))
          else legacy_wait_disk get opname (Suc k)
                 (tr @ [Polled opname k,
                        Printf ''Waiting for boot disk deletion (%s)...\<newline>'' [S (Status operation)],
                        Slept 2]))"

text \<open>
  Step 3, the loop over the deletion of the boot disk. It returns from inside the
  polling loop; the statements after it are the only place of the function that
  reports exhausted retries.
\<close>

function legacy_disk_loop ::
  "Service \<Rightarrow> string \<Rightarrow> string \<Rightarrow> string \<Rightarrow> nat \<Rightarrow> gcp_event list
     \<Rightarrow> (error option \<times> gcp_event list) option"
where
  "legacy_disk_loop svc zone instanceID bootDisk attempt tr =
     (if attempt < maxRetries then
        (case Disks_Delete svc zone bootDisk attempt of
           Inr opname \<Rightarrow>
             (case legacy_wait_disk (ZoneOperations_Get svc zone opname) opname 0
                     (tr @ [Submitted DiskDelete attempt]) of
                None \<Rightarrow> None
              | Some (Some e, tr') \<Rightarrow> Some (Some e, tr')
              | Some (None, tr') \<Rightarrow>
                  Some (None, tr' @ [Printf ''Boot disk %s deleted successfully\<newline>'' [S bootDisk]]))
         | Inl err \<Rightarrow>
             if retryable err then
               legacy_disk_loop svc zone instanceID bootDisk (Suc attempt)
                 (tr @ [Submitted DiskDelete attempt,
                        Logged ''Disk delete retryable error (%d/%d): %v, waiting %v''
                          [I (int attempt + 1), I (int maxRetries), E err, I (2 ^ attempt)],
                        Printf ''Disk delete retryable error (%d/%d): %v, waiting %v\<newline>''
                          [I (int attempt + 1), I (int maxRetries), E err, I (2 ^ attempt)],
                        Slept (2 ^ attempt)])
             else Some (Some (Errorf ''non-retryable error: %v'' [E err]),
                        tr @ [Submitted DiskDelete attempt,
                              Logged ''Disk delete non-retryable error: %v'' [E err]]))
      else Some (Some (Errorf ''failed to delete instance after %d retries'' [I (int maxRetries)]),
                 tr @ [Logged ''Failed to delete instance %s after %d retries''
                         [S instanceID, I (int maxRetries)]]))"
  by pat_completeness auto
termination
  by (relation "measure (\<lambda>(svc, zone, instanceID, bootDisk, attempt, tr). maxRetries - attempt)")
    auto

text \<open>
  Step 2, the loop over the deletion of the instance. A finished deletion breaks out of
  both loops; so does the end of the \<^verbatim>\<open>range\<close>: in either case the function goes on
  with step 3, since no statement stands between the two loops.
\<close>

function legacy_instance_loop ::
  "Service \<Rightarrow> string \<Rightarrow> string \<Rightarrow> string \<Rightarrow> nat \<Rightarrow> gcp_event list
     \<Rightarrow> (error option \<times> gcp_event list) option"
where
  "legacy_instance_loop svc zone instanceID bootDisk attempt tr =
     (if attempt < maxRetries then
        (case Instances_Delete svc zone instanceID attempt of
           Inr opname \<Rightarrow>
             (case wait_operation InstanceDelete (ZoneOperations_Get svc zone opname) opname 0
                     (tr @ [Submitted InstanceDelete attempt]) of
                None \<Rightarrow> None
              | Some (Some e, tr') \<Rightarrow> Some (Some e, tr')
              | Some (None, tr') \<Rightarrow>
                  legacy_disk_loop svc zone instanceID bootDisk 0
                    (tr' @ [Printf ''Instance %s deleted successfully\<newline>'' [S instanceID]]))
         | Inl err \<Rightarrow>
             if retryable err then
               legacy_instance_loop svc zone instanceID bootDisk (Suc attempt)
                 (tr @ [Submitted InstanceDelete attempt,
                        Logged ''Instance delete retryable error (%d/%d): %v, waiting %v''
                          [I (int attempt + 1), I (int maxRetries), E err, I (2 ^ attempt)],
                        Printf ''Instance delete retryable error (%d/%d): %v, waiting %v\<newline>''
                          [I (int attempt + 1), I (int maxRetries), E err, I (2 ^ attempt)],
                        Slept (2 ^ attempt)])
             else Some (Some (Errorf ''non-retryable error: %v'' [E err]),
                        tr @ [Submitted InstanceDelete attempt,
                              Logged ''Delete non-retryable error: %v'' [E err]]))
      else legacy_disk_loop svc zone instanceID bootDisk 0 tr)"
  by pat_completeness auto
termination
  by (relation "measure (\<lambda>(svc, zone, instanceID, bootDisk, attempt, tr). maxRetries - attempt)")
    auto

text \<open>
  Step 1 fetches the instance and takes the name of its boot disk: the loop over
  \<^verbatim>\<open>instance.Disks\<close> is that of GetInstanceInfo, started from the empty string.
\<close>

definition legacy_DeleteInstance ::
  "Service \<Rightarrow> string \<Rightarrow> string \<Rightarrow> (error option \<times> gcp_event list) option"
where
  "legacy_DeleteInstance svc zone instanceID =
     (case Instances_Get svc zone instanceID of
        Inl err \<Rightarrow>
          Some (Some (Errorf ''failed to get instance %s for disk info: %v'' [S instanceID, E err]),
                [Printf ''Attempting to delete instance %s in zone %s\<newline>'' [S instanceID, S zone],
                 Fetched instanceID])
      | Inr instance \<Rightarrow>
          (let bootDisk = boot_DiskID (Disks instance) ''''
           in if bootDisk = ''''
              then Some (Some (Errorf ''no boot disk found for instance %s'' [S instanceID]),
                         [Printf ''Attempting to delete instance %s in zone %s\<newline>''
                            [S instanceID, S zone],
                          Fetched instanceID])
              else legacy_instance_loop svc zone instanceID bootDisk 0
                     [Printf ''Attempting to delete instance %s in zone %s\<newline>''
                        [S instanceID, S zone],
                      Fetched instanceID,
                      Printf ''Found boot disk: %s\<newline>'' [S bootDisk]]))"

section \<open>Record store\<close>

text \<open>part\_002: \<^verbatim>\<open>type ProxyRecord struct\<close> and \<^verbatim>\<open>type RecordManager struct\<close>.\<close>

record ProxyRecord =
  Name :: string
  Provider :: string
  Region :: string
  Zone :: string
  InstanceID :: string
  IP :: string
  Type :: string
  Location :: string

record RecordManager =
  filePath :: string

text \<open>
  The file system as the record store sees it. A path has no file, a file that cannot
  be read, bytes that \<^verbatim>\<open>json.Unmarshal\<close> rejects, or the encoding of a list of records
  (what \<^verbatim>\<open>json.MarshalIndent\<close> writes and \<^verbatim>\<open>json.Unmarshal\<close> reads back).
  \<open>write_error\<close> is the error of \<^verbatim>\<open>os.WriteFile\<close> at a path, if it fails; a failed write
  is taken to leave the file as it was.
\<close>

datatype file_state = NotExist | Unreadable error | Malformed error | Encoded "ProxyRecord list"

datatype call =
    ListRegions_call
  | ListZones_call string
  | ListMachineTypes_call string
  | CreateInstance_call string string string
  | DeleteInstance_call string string
  | DeleteDisk_call string string
  | GetInstanceInfo_call string string
  | Deploy_call string

datatype event =
    Asked string "string list"
  | Called call
  | ReadFile string
  | WriteFile string "ProxyRecord list"
  | Print string "arg list"
  | Log string "arg list"

record world =
  files :: "string \<Rightarrow> file_state"
  write_error :: "string \<Rightarrow> error option"
  trace :: "event list"

definition emit :: "event \<Rightarrow> world \<Rightarrow> world" where
  "emit ev w = w\<lparr>trace := trace w @ [ev]\<rparr>"

text \<open>
  \<^verbatim>\<open>RecordManager.Load\<close>: a missing file is the empty collection and no error.
\<close>

definition Load :: "RecordManager \<Rightarrow> world \<Rightarrow> (ProxyRecord list \<times> error option) \<times> world" where
  "Load r w =
     (let w' = emit (ReadFile (filePath r)) w
      in case files w (filePath r) of
           NotExist \<Rightarrow> (([], None), w')
         | Unreadable err \<Rightarrow> (([], Some (Errorf ''failed to read records: %w'' [E err])), w')
         | Malformed err \<Rightarrow> (([], Some (Errorf ''failed to unmarshal records: %w'' [E err])), w')
         | Encoded records \<Rightarrow> ((records, None), w'))"

text \<open>
  \<^verbatim>\<open>RecordManager.Save\<close>. \<^verbatim>\<open>json.MarshalIndent\<close> does not fail on a slice of structs
  of strings, so the only error is the write's.
\<close>

definition Save :: "RecordManager \<Rightarrow> ProxyRecord list \<Rightarrow> world \<Rightarrow> error option \<times> world" where
  "Save r records w =
     (let w' = emit (WriteFile (filePath r) records) w
      in case write_error w (filePath r) of
           Some err \<Rightarrow> (Some (Errorf ''failed to write records: %w'' [E err]), w')
         | None \<Rightarrow> (None, w'\<lparr>files := (files w)(filePath r := Encoded records)\<rparr>))"

definition saves :: "event list \<Rightarrow> ProxyRecord list list" where
  "saves tr = concat (map (\<lambda>ev. case ev of WriteFile _ rs \<Rightarrow> [rs] | _ \<Rightarrow> []) tr)"

definition calls :: "event list \<Rightarrow> call list" where
  "calls tr = concat (map (\<lambda>ev. case ev of Called c \<Rightarrow> [c] | _ \<Rightarrow> []) tr)"

definition file_accesses :: "event list \<Rightarrow> nat" where
  "file_accesses tr =
     length (filter (\<lambda>ev. case ev of ReadFile _ \<Rightarrow> True | WriteFile _ _ \<Rightarrow> True | _ \<Rightarrow> False) tr)"

section \<open>Go slices\<close>

text \<open>
  A slice is a window of length \<open>len\<close> on a backing array; a pointer to an element is an
  index into that array, and reads what the array holds when it is dereferenced.
  \<open>remove_at i\<close> is \<^verbatim>\<open>records = append(records[:i], records[i+1:]...)\<close>: the elements
  after \<open>i\<close> move one place down inside the same array, whose last place keeps its old
  value. \<open>append_one\<close> is \<^verbatim>\<open>append(records, x)\<close>: in place when the array has room, in
  a new array otherwise.
\<close>

record 'a slice =
  array :: "'a list"
  len :: nat

definition slice_of :: "'a list \<Rightarrow> 'a slice" where
  "slice_of xs = \<lparr>array = xs, len = length xs\<rparr>"

definition elems :: "'a slice \<Rightarrow> 'a list" where
  "elems s = take (len s) (array s)"

definition remove_at :: "nat \<Rightarrow> 'a slice \<Rightarrow> 'a slice" where
  "remove_at i s =
     \<lparr>array = take i (array s) @ drop (Suc i) (take (len s) (array s)) @ drop (len s - 1) (array s),
      len = len s - 1\<rparr>"

definition append_one :: "'a slice \<Rightarrow> 'a \<Rightarrow> 'a slice" where
  "append_one s x =
     (if len s < length (array s)
      then \<lparr>array = (array s)[len s := x], len = Suc (len s)\<rparr>
      else \<lparr>array = elems s @ [x], len = Suc (len s)\<rparr>)"

section \<open>Commander\<close>

text \<open>
  cloud.go and proxy.go: the \<^verbatim>\<open>CloudProvider\<close> and \<^verbatim>\<open>ProxyDeployer\<close> interfaces. The
  commander sees an implementation only through what its methods return, so an
  implementation is the record of these answers; every pipeline below calls each method
  at most once with given arguments. A method's results are the Go tuple, the error
  last (\<open>None\<close> is nil).
\<close>

record CloudProvider =
  ListRegions :: "string list \<times> error option"
  ListZones :: "string \<Rightarrow> string list \<times> error option"
  ListMachineTypes :: "string \<Rightarrow> string list \<times> error option"
  RecommendedType :: string
  CreateInstance :: "string \<Rightarrow> string \<Rightarrow> string \<Rightarrow> string \<times> string \<times> error option"
  DeleteInstance :: "string \<Rightarrow> string \<Rightarrow> error option"
  DeleteDisk :: "string \<Rightarrow> string \<Rightarrow> error option"
  GetInstanceInfo :: "string \<Rightarrow> string \<Rightarrow> InstanceInfo \<times> error option"

record ProxyDeployer =
  Deploy :: "string \<Rightarrow> error option"

record Commander =
  provider :: CloudProvider
  deployer :: ProxyDeployer
  recordManager :: RecordManager

text \<open>What the four \<^verbatim>\<open>survey.AskOne\<close> prompts of Create leave in their variables.\<close>

record answers =
  selectedPlatform :: string
  selectedLocation :: string
  selectedZone :: string
  selectedType :: string

text \<open>
  \<^verbatim>\<open>strings.ToUpper\<close> on ASCII letters (the platform names are ASCII),
  \<^verbatim>\<open>strings.HasSuffix\<close>, and the two uses of the region table: \<^verbatim>\<open>regionToLocations\<close>
  and the reversed map built in Create. The table is a Go map, here the list of its
  entries; its display names are distinct, so the reversed map does not depend on the
  order of iteration.
\<close>

definition ToUpper :: "string \<Rightarrow> string" where
  "ToUpper s =
     map (\<lambda>c. case map_of (zip ''abcdefghijklmnopqrstuvwxyz'' ''ABCDEFGHIJKLMNOPQRSTUVWXYZ'') c of
                 Some u \<Rightarrow> u
               | None \<Rightarrow> c) s"

definition HasSuffix :: "string \<Rightarrow> string \<Rightarrow> bool" where
  "HasSuffix s suffix =
     (length suffix \<le> length s \<and> drop (length s - length suffix) s = suffix)"

definition regionToLocations :: "string list \<Rightarrow> (string \<times> string) list \<Rightarrow> string list" where
  "regionToLocations regions mapping =
     map (\<lambda>r. case map_of mapping r of Some location \<Rightarrow> location | None \<Rightarrow> r) regions"

definition reverseMap :: "(string \<times> string) list \<Rightarrow> string \<Rightarrow> string" where
  "reverseMap mapping location =
     (case map_of (map (\<lambda>(k, v). (v, k)) mapping) location of Some k \<Rightarrow> k | None \<Rightarrow> '''')"

text \<open>
  \<^verbatim>\<open>Commander.Create\<close> (part\_001, lines 634 to 715). \<open>gcp_locations\<close> is the global
  table of part\_000.
\<close>

definition Create ::
  "Commander \<Rightarrow> (string \<times> string) list \<Rightarrow> answers \<Rightarrow> world \<Rightarrow> error option \<times> world"
where
  "Create c gcp_locations ans w0 =
     (let w1 = emit (Called ListRegions_call) (emit (Asked ''Choose a cloud platform:'' [''GCP'']) w0)
      in case ListRegions (provider c) of
           (regions, Some err) \<Rightarrow> (Some (Errorf ''error listing regions: %v'' [E err]), w1)
         | (regions, None) \<Rightarrow>
             if ToUpper (selectedPlatform ans) \<noteq> ''GCP''
             then (Some (Errorf ''invalid platform: %s'' [S (selectedPlatform ans)]), w1)
             else
               (let locations = regionToLocations regions gcp_locations;
                    selectedRegion = reverseMap gcp_locations (selectedLocation ans);
                    w2 = emit (Called (ListZones_call selectedRegion))
                           (emit (Asked ''Choose a region:'' locations) w1)
                in case ListZones (provider c) selectedRegion of
                     (zones, Some err) \<Rightarrow> (Some (Errorf ''error listing zones: %v'' [E err]), w2)
                   | (zones, None) \<Rightarrow>
                       (let w3 = emit (Called (ListMachineTypes_call (selectedZone ans)))
                                   (emit (Asked ''Choose a zone:'' zones) w2)
                        in case ListMachineTypes (provider c) (selectedZone ans) of
                             (machineTypes, Some err) \<Rightarrow>
                               (Some (Errorf ''error listing machine types: %v'' [E err]), w3)
                           | (machineTypes, None) \<Rightarrow>
                               (let recommended = RecommendedType (provider c);
                                    w4 = emit (Asked ''Choose a machine type:''
                                                 (map (\<lambda>mt. if mt = recommended
                                                             then mt @ '' (recommended)'' else mt)
                                                    machineTypes)) w3;
                                    selectedType =
                                      (if HasSuffix (selectedType ans) '' (recommended)''
                                       then recommended else selectedType ans);
                                    name = ''proxy-'' @ filter (\<lambda>ch. ch \<noteq> CHR ''-'') (selectedZone ans);
                                    w5 = emit (Called (CreateInstance_call name (selectedZone ans) selectedType)) w4
                                in case CreateInstance (provider c) name (selectedZone ans) selectedType of
                                     (instanceID, ip, Some err) \<Rightarrow>
                                       (Some (Errorf ''error creating instance: %v'' [E err]), w5)
                                   | (instanceID, ip, None) \<Rightarrow>
                                       (let w6 = emit (Called (Deploy_call ip)) w5
                                        in case Deploy (deployer c) ip of
                                             Some err \<Rightarrow>
                                               (Some (Errorf ''error deploying proxy: %v'' [E err]),
                                                emit (Log ''Error deploying proxy %s: %v'' [S name, E err]) w6)
                                           | None \<Rightarrow>
                                               (case Load (recordManager c) w6 of
                                                  ((records, Some err), w7) \<Rightarrow>
                                                    (Some (Errorf ''error loading records: %v'' [E err]), w7)
                                                | ((records, None), w7) \<Rightarrow>
                                                    (case Save (recordManager c)
                                                            (records @
                                                             [\<lparr>Name = name, Provider = ''gcp'',
                                                               Region = selectedRegion,
                                                               Zone = selectedZone ans,
                                                               InstanceID = instanceID, IP = ip,
                                                               Type = ''instance'',
                                                               Location = selectedLocation ans\<rparr>]) w7 of
                                                       (Some err, w8) \<Rightarrow>
                                                         (Some (Errorf ''error saving records: %v'' [E err]), w8)
                                                     | (None, w8) \<Rightarrow>
                                                         (None,
                                                          emit (Print ''Shadowsocks proxy created at: %s:8388\<newline> - Protocol: Shadowsocks\<newline> - Password: s;980303\<newline> - Encryption: aes-256-gcm\<newline>'' [S ip]) w8))))))))"

text \<open>
  The two loops of \<^verbatim>\<open>Commander.Delete\<close> over the records look for the first record with
  the name and \<^verbatim>\<open>Type == "instance"\<close>.
\<close>

fun findInstance :: "string \<Rightarrow> ProxyRecord list \<Rightarrow> nat option" where
  "findInstance name [] = None"
| "findInstance name (r # rs) =
     (if Name r = name \<and> Type r = ''instance'' then Some 0
      else map_option Suc (findInstance name rs))"

text \<open>The end of Delete (lines 778 to 783): save, then report.\<close>

definition Delete_save :: "Commander \<Rightarrow> string \<Rightarrow> ProxyRecord slice \<Rightarrow> world \<Rightarrow> error option \<times> world" where
  "Delete_save c name records w =
     (case Save (recordManager c) (elems records) w of
        (Some err, w') \<Rightarrow> (Some (Errorf ''error saving records: %v'' [E err]), w')
      | (None, w') \<Rightarrow> (None, emit (Print ''Proxy %s deleted.\<newline>'' [S name]) w'))"

text \<open>
  \<^verbatim>\<open>Commander.Delete\<close> (part\_001, lines 717 to 784). \<open>instanceRecord\<close> is the pointer
  \<^verbatim>\<open>&records[i]\<close>: after the record is removed from the slice it reads whatever the
  backing array then holds at \<open>i\<close>. \<open>info\<close> is used whether or not GetInstanceInfo
  returned an error.
\<close>

definition Delete :: "Commander \<Rightarrow> string \<Rightarrow> world \<Rightarrow> error option \<times> world" where
  "Delete c name w0 =
     (case Load (recordManager c) w0 of
        ((loaded, Some err), w1) \<Rightarrow> (Some (Errorf ''error loading records: %v'' [E err]), w1)
      | ((loaded, None), w1) \<Rightarrow>
          (case findInstance name loaded of
             None \<Rightarrow> (None, emit (Print ''Proxy not found: %s\<newline>'' [S name]) w1)
           | Some instanceRecord \<Rightarrow>
               (let records = slice_of loaded;
                    r = array records ! instanceRecord;
                    w2 = emit (Called (GetInstanceInfo_call (Zone r) (InstanceID r))) w1
                in case GetInstanceInfo (provider c) (Zone r) (InstanceID r) of
                     (info, err) \<Rightarrow>
                       (let w3 = (case err of
                                    Some e \<Rightarrow>
                                      emit (Log ''Failed to get instance info for %s: %v''
                                              [S (InstanceID r), E e]) w2
                                  | None \<Rightarrow>
                                      emit (Print ''Found boot disk: %s for instance %s\<newline>''
                                              [S (DiskID info), S (InstanceID r)]) w2);
                            w4 = emit (Called (DeleteInstance_call (Zone r) (InstanceID r))) w3
                        in case DeleteInstance (provider c) (Zone r) (InstanceID r) of
                             Some e \<Rightarrow>
                               (None,
                                emit (Print ''Failed to delete instance %s\<newline>'' [S (InstanceID r)])
                                  (emit (Log ''Error deleting instance %s: %v'' [S (InstanceID r), E e]) w4))
                           | None \<Rightarrow>
                               (let records =
                                      (case findInstance name (elems records) of
                                         Some i \<Rightarrow> remove_at i records
                                       | None \<Rightarrow> records);
                                    r' = array records ! instanceRecord
                                in if DiskID info \<noteq> '''' then
                                     (let diskRecord =
                                            \<lparr>Name = name, Provider = Provider r', Region = Region r',
                                             Zone = Zone r', InstanceID = DiskID info, IP = '''',
                                             Type = ''disk'', Location = Location r'\<rparr>;
                                          w5 = emit (Called (DeleteDisk_call (Zone r') (DiskID info))) w4
                                      in case DeleteDisk (provider c) (Zone r') (DiskID info) of
                                           Some e \<Rightarrow>
                                             Delete_save c name (append_one records diskRecord)
                                               (emit (Print ''Failed to delete disk %s\<newline>'' [S (DiskID info)])
                                                  (emit (Log ''Error deleting disk %s: %v''
                                                           [S (DiskID info), E e]) w5))
                                         | None \<Rightarrow> Delete_save c name records w5)
                                   else Delete_save c name records w4)))))"

text \<open>
  The record counts the claims speak of: the instance-kind records of a name and the
  disk-kind records carrying a storage identifier.
\<close>

definition instance_records :: "string \<Rightarrow> ProxyRecord list \<Rightarrow> ProxyRecord list" where
  "instance_records name rs = filter (\<lambda>r. Name r = name \<and> Type r = ''instance'') rs"


section \<open>Readiness probing and remote configuration\<close>

text \<open>
  The machine the tool runs on, as a script: the error of \<^verbatim>\<open>os.WriteFile\<close> for a file
  name, the \<open>k\<close>-th \<^verbatim>\<open>net.DialTimeout\<close> (the time it takes, in nanoseconds, and its
  error), the \<open>k\<close>-th run of \<^verbatim>\<open>ssh ... exit\<close>, and the four steps of running
  \<^verbatim>\<open>ansible-playbook\<close>. Time is a clock in nanoseconds, the unit of
  \<^verbatim>\<open>time.Duration\<close>; a sleep advances it by its duration. The two goroutines that copy
  the playbook's output to the terminal are left out.
\<close>

record Host =
  os_WriteFile :: "string \<Rightarrow> error option"
  net_DialTimeout :: "nat \<Rightarrow> nat \<times> error option"
  ssh_Run :: "nat \<Rightarrow> error option"
  cmd_StdoutPipe :: "error option"
  cmd_StderrPipe :: "error option"
  cmd_Start :: "error option"
  cmd_Wait :: "error option"

datatype host_event =
    Wrote string
  | Removed string
  | Dialed string nat nat
  | Ran string nat
  | Paused nat
  | Started string
  | Println string "arg list"

definition Second :: nat where
  "Second = 1000000000"

definition dials :: "host_event list \<Rightarrow> nat" where
  "dials tr = length (filter (\<lambda>ev. case ev of Dialed _ _ _ \<Rightarrow> True | _ \<Rightarrow> False) tr)"

definition ssh_runs :: "host_event list \<Rightarrow> nat" where
  "ssh_runs tr = length (filter (\<lambda>ev. case ev of Ran _ _ \<Rightarrow> True | _ \<Rightarrow> False) tr)"

definition playbook_started :: "host_event list \<Rightarrow> bool" where
  "playbook_started tr = (Started ''ansible-playbook'' \<in> set tr)"

text \<open>
  \<^verbatim>\<open>waitForSSH\<close> (part\_001, lines 421 to 432): \<^verbatim>\<open>for time.Now().Before(deadline)\<close>,
  dial with a two-second timeout, return nil on success, sleep two seconds otherwise.
  The result is the error, the events and the clock on return.
\<close>

function waitForSSH_loop ::
  "Host \<Rightarrow> string \<Rightarrow> nat \<Rightarrow> nat \<Rightarrow> nat \<Rightarrow> nat \<Rightarrow> nat \<Rightarrow> host_event list
     \<Rightarrow> error option \<times> host_event list \<times> nat"
where
  "waitForSSH_loop h host port timeout deadline now k tr =
     (if now < deadline then
        (case net_DialTimeout h k of
           (d, None) \<Rightarrow> (None, tr @ [Dialed host port k], now + d)
         | (d, Some err) \<Rightarrow>
             waitForSSH_loop h host port timeout deadline (now + d + 2 * Second) (Suc k)
               (tr @ [Dialed host port k, Paused (2 * Second)]))
      else (Some (Errorf ''SSH not ready after %s'' [I (int timeout)]), tr, now))"
  by pat_completeness auto
termination
  by (relation "measure (\<lambda>(h, host, port, timeout, deadline, now, k, tr). deadline - now)")
    (auto simp: Second_def)

definition waitForSSH ::
  "Host \<Rightarrow> string \<Rightarrow> nat \<Rightarrow> nat \<Rightarrow> nat \<Rightarrow> error option \<times> host_event list \<times> nat"
where
  "waitForSSH h host port timeout now =
     waitForSSH_loop h host port timeout (now + timeout) now 0 []"

text \<open>
  Running the playbook, the same in \<^verbatim>\<open>deployProxy\<close> and in
  \<^verbatim>\<open>AnsibleProxyDeployer.Deploy\<close>: \<^verbatim>\<open>Started\<close> is recorded when \<^verbatim>\<open>cmd.Start\<close> succeeds.
\<close>

definition run_playbook :: "Host \<Rightarrow> host_event list \<Rightarrow> error option \<times> host_event list" where
  "run_playbook h tr =
     (let tr1 = tr @ [Println ''Starting Ansible playbook execution...'' []]
      in case cmd_StdoutPipe h of
           Some err \<Rightarrow> (Some (Errorf ''failed to get stdout pipe: %v'' [E err]), tr1)
         | None \<Rightarrow>
             (case cmd_StderrPipe h of
                Some err \<Rightarrow> (Some (Errorf ''failed to get stderr pipe: %v'' [E err]), tr1)
              | None \<Rightarrow>
                  (case cmd_Start h of
                     Some err \<Rightarrow> (Some (Errorf ''failed to start ansible-playbook: %v'' [E err]), tr1)
                   | None \<Rightarrow>
                       (let tr2 = tr1 @ [Started ''ansible-playbook'']
                        in case cmd_Wait h of
                             Some err \<Rightarrow> (Some (Errorf ''ansible-playbook failed: %v'' [E err]), tr2)
                           | None \<Rightarrow>
                               (None,
                                tr2 @ [Println ''Ansible playbook execution completed successfully.'' []])))))"

text \<open>
  \<^verbatim>\<open>deployProxy\<close> (part\_001, lines 298 to 419), the configurator of the first
  \<^verbatim>\<open>main\<close>: it probes with \<^verbatim>\<open>waitForSSH(ip, 22, 60*time.Second)\<close> and returns when
  the probe fails. The deferred removals run on every return after their \<^verbatim>\<open>defer\<close>.
\<close>

definition deployProxy :: "Host \<Rightarrow> string \<Rightarrow> nat \<Rightarrow> error option \<times> host_event list" where
  "deployProxy h ip now =
     (case os_WriteFile h ''inventory.ini'' of
        Some err \<Rightarrow> (Some err, [])
      | None \<Rightarrow>
          (case os_WriteFile h ''playbook.yml'' of
             Some err \<Rightarrow> (Some err, [Wrote ''inventory.ini'', Removed ''inventory.ini''])
           | None \<Rightarrow>
               (let tr = [Wrote ''inventory.ini'', Wrote ''playbook.yml'',
                          Println ''Waiting for SSH to be ready...'' []]
                in case waitForSSH h ip 22 (60 * Second) now of
                     (Some err, tr', now') \<Rightarrow>
                       (Some (Errorf ''SSH not ready: %v'' [E err]),
                        tr @ tr' @ [Removed ''playbook.yml'', Removed ''inventory.ini''])
                   | (None, tr', now') \<Rightarrow>
                       (case run_playbook h (tr @ tr') of
                          (r, tr'') \<Rightarrow>
                            (r, tr'' @ [Removed ''playbook.yml'', Removed ''inventory.ini''])))))"

text \<open>
  \<^verbatim>\<open>AnsibleProxyDeployer.Deploy\<close> (proxy.go): up to 30 runs of \<^verbatim>\<open>ssh ... exit\<close>, two
  seconds apart, leaving the loop at the first that succeeds; whatever the loop saw,
  the playbook is run next. A failed write of the playbook returns nil.
\<close>

record AnsibleProxyDeployer =
  user :: string
  keyPath :: string

function Deploy_ssh_loop :: "Host \<Rightarrow> nat \<Rightarrow> host_event list \<Rightarrow> host_event list" where
  "Deploy_ssh_loop h i tr =
     (if i < 30 then
        (case ssh_Run h i of
           None \<Rightarrow> tr @ [Ran ''ssh'' i]
         | Some err \<Rightarrow>
             Deploy_ssh_loop h (Suc i)
               (tr @ [Ran ''ssh'' i,
                      Println ''SSH not ready, retrying in 2 seconds (%d/30)...\<newline>'' [I (int i + 1)],
                      Paused (2 * Second)]))
      else tr)"
  by pat_completeness auto
termination
  by (relation "measure (\<lambda>(h, i, tr). 30 - i)") auto

definition AnsibleProxyDeployer_Deploy ::
  "AnsibleProxyDeployer \<Rightarrow> Host \<Rightarrow> string \<Rightarrow> error option \<times> host_event list"
where
  "AnsibleProxyDeployer_Deploy d h ip =
     (case os_WriteFile h ''inventory.ini'' of
        Some err \<Rightarrow> (Some err, [])
      | None \<Rightarrow>
          (case os_WriteFile h ''playbook.yml'' of
             Some err \<Rightarrow> (None, [Wrote ''inventory.ini'', Removed ''inventory.ini''])
           | None \<Rightarrow>
               (case run_playbook h
                       (Deploy_ssh_loop h 0
                          [Wrote ''inventory.ini'', Wrote ''playbook.yml'',
                           Println ''Waiting for SSH to be ready...'' []]) of
                  (r, tr) \<Rightarrow> (r, tr @ [Removed ''playbook.yml'', Removed ''inventory.ini'']))))"

section \<open>Example scripts\<close>

definition always_503 :: Service where
  "always_503 =
     \<lparr>Instances_Insert = (\<lambda>zone name k. Inl (GoogleapiError 503 ''backend unavailable'')),
      Instances_Delete = (\<lambda>zone name k. Inl (GoogleapiError 503 ''backend unavailable'')),
      Disks_Delete = (\<lambda>zone name k. Inl (GoogleapiError 500 ''internal error'')),
      ZoneOperations_Get = (\<lambda>zone opname k. Inl (OtherError ''unused'')),
      Instances_Get = (\<lambda>zone name. Inl (OtherError ''unused''))\<rparr>"

definition fails_then_404 :: "nat \<Rightarrow> error \<Rightarrow> Service" where
  "fails_then_404 n e =
     \<lparr>Instances_Insert = (\<lambda>zone name k. Inl (if k < n then GoogleapiError 503 ''backend unavailable'' else e)),
      Instances_Delete = (\<lambda>zone name k. Inl (if k < n then GoogleapiError 502 ''bad gateway'' else e)),
      Disks_Delete = (\<lambda>zone name k. Inl (if k < n then GoogleapiError 500 ''internal error'' else e)),
      ZoneOperations_Get = (\<lambda>zone opname k. Inl (OtherError ''unused'')),
      Instances_Get = (\<lambda>zone name. Inl (OtherError ''unused''))\<rparr>"

definition pending_then :: "nat \<Rightarrow> (error + Operation) \<Rightarrow> nat \<Rightarrow> error + Operation" where
  "pending_then n final k =
     (if k < n then Inr \<lparr>Status = ''RUNNING'', Error = None\<rparr> else final)"

definition service_with :: "Instance \<Rightarrow> Service" where
  "service_with instance =
     \<lparr>Instances_Insert = (\<lambda>zone name k. Inr ''op-insert''),
      Instances_Delete = (\<lambda>zone name k. Inr ''op-delete''),
      Disks_Delete = (\<lambda>zone name k. Inr ''op-disk''),
      ZoneOperations_Get = (\<lambda>zone opname k. Inr \<lparr>Status = ''DONE'', Error = None\<rparr>),
      Instances_Get = (\<lambda>zone name. Inr instance)\<rparr>"

definition nat_interface :: "string \<Rightarrow> NetworkInterface" where
  "nat_interface ip = \<lparr>AccessConfigs = [\<lparr>NatIP = ip\<rparr>]\<rparr>"

definition empty_world :: world where
  "empty_world = \<lparr>files = (\<lambda>path. NotExist), write_error = (\<lambda>path. None), trace = []\<rparr>"

definition stub_provider :: "error option \<Rightarrow> error option \<Rightarrow> CloudProvider" where
  "stub_provider delete_instance_result delete_disk_result =
     \<lparr>ListRegions = ([''r1''], None),
      ListZones = (\<lambda>region. ([''z1''], None)),
      ListMachineTypes = (\<lambda>zone. ([''m1''], None)),
      RecommendedType = ''m1'',
      CreateInstance = (\<lambda>name zone machineType. (name, ''34.1.2.3'', None)),
      DeleteInstance = (\<lambda>zone instanceID. delete_instance_result),
      DeleteDisk = (\<lambda>zone diskID. delete_disk_result),
      GetInstanceInfo = (\<lambda>zone instanceID. (\<lparr>InstanceInfo.IP = ''34.1.2.3'', DiskID = ''d1''\<rparr>, None))\<rparr>"

definition stub_commander :: "error option \<Rightarrow> error option \<Rightarrow> error option \<Rightarrow> Commander" where
  "stub_commander deploy_result delete_instance_result delete_disk_result =
     \<lparr>provider = stub_provider delete_instance_result delete_disk_result,
      deployer = \<lparr>Deploy = (\<lambda>ip. deploy_result)\<rparr>,
      recordManager = \<lparr>filePath = ''proxy_records.json''\<rparr>\<rparr>"

definition instance_p1 :: ProxyRecord where
  "instance_p1 =
     \<lparr>Name = ''p1'', Provider = ''gcp'', Region = ''r1'', Zone = ''z1'', InstanceID = ''p1'',
      IP = ''34.1.2.3'', Type = ''instance'', Location = ''Iowa''\<rparr>"

definition disk_p1 :: ProxyRecord where
  "disk_p1 =
     \<lparr>Name = ''p1'', Provider = ''gcp'', Region = ''r1'', Zone = ''z1'', InstanceID = ''d1'',
      IP = '''', Type = ''disk'', Location = ''Iowa''\<rparr>"

definition world_holding :: "ProxyRecord list \<Rightarrow> error option \<Rightarrow> world" where
  "world_holding rs write_result =
     \<lparr>files = (\<lambda>path. if path = ''proxy_records.json'' then Encoded rs else NotExist),
      write_error = (\<lambda>path. write_result),
      trace = []\<rparr>"

definition answers_z1 :: answers where
  "answers_z1 =
     \<lparr>selectedPlatform = ''GCP'', selectedLocation = ''Iowa'', selectedZone = ''z1'',
      selectedType = ''m1 (recommended)''\<rparr>"

definition slow_service :: Service where
  "slow_service =
     \<lparr>Instances_Insert = (\<lambda>zone name k. Inr ''op-insert''),
      Instances_Delete = (\<lambda>zone name k. Inr ''op-delete''),
      Disks_Delete = (\<lambda>zone name k. Inr ''op-disk''),
      ZoneOperations_Get =
        (\<lambda>zone opname. pending_then 3 (Inr \<lparr>Status = ''DONE'', Error = None\<rparr>)),
      Instances_Get =
        (\<lambda>zone name. Inr \<lparr>NetworkInterfaces = [nat_interface ''34.1.2.3''], Disks = []\<rparr>)\<rparr>"

definition instance_delete_503 :: Service where
  "instance_delete_503 =
     \<lparr>Instances_Insert = (\<lambda>zone name k. Inl (OtherError ''unused'')),
      Instances_Delete = (\<lambda>zone name k. Inl (GoogleapiError 503 ''backend unavailable'')),
      Disks_Delete = (\<lambda>zone name k. Inr ''op-disk''),
      ZoneOperations_Get = (\<lambda>zone opname k. Inr \<lparr>Status = ''DONE'', Error = None\<rparr>),
      Instances_Get =
        (\<lambda>zone name. Inr \<lparr>NetworkInterfaces = [nat_interface ''34.1.2.3''],
                           Disks = [\<lparr>Boot = True, Source = ''projects/x/zones/z1/disks/d1''\<rparr>]\<rparr>)\<rparr>"

definition unreachable_host :: Host where
  "unreachable_host =
     \<lparr>os_WriteFile = (\<lambda>name. None),
      net_DialTimeout = (\<lambda>k. (2 * Second, Some (OtherError ''i/o timeout''))),
      ssh_Run = (\<lambda>k. Some (OtherError ''exit status 255'')),
      cmd_StdoutPipe = None,
      cmd_StderrPipe = None,
      cmd_Start = None,
      cmd_Wait = Some (OtherError ''exit status 4'')\<rparr>"

section \<open>Traces\<close>

lemma submissions_append [simp]: "submissions (a @ b) = submissions a @ submissions b"
  by (simp add: submissions_def)
lemma polls_append [simp]: "polls (a @ b) = polls a + polls b"
  by (simp add: polls_def)
lemma sleeps_append [simp]: "sleeps (a @ b) = sleeps a @ sleeps b"
  by (simp add: sleeps_def)
lemma submissions_simps [simp]:
  "submissions [] = []"
  "submissions (Submitted kind k # tr) = k # submissions tr"
  "submissions (Polled opname j # tr) = submissions tr"
  "submissions (Fetched name # tr) = submissions tr"
  "submissions (Printf f as # tr) = submissions tr"
  "submissions (Logged f as # tr) = submissions tr"
  "submissions (Slept d # tr) = submissions tr"
  by (simp_all add: submissions_def)
lemma polls_simps [simp]:
  "polls [] = 0"
  "polls (Submitted kind k # tr) = polls tr"
  "polls (Polled opname j # tr) = Suc (polls tr)"
  "polls (Fetched name # tr) = polls tr"
  "polls (Printf f as # tr) = polls tr"
  "polls (Logged f as # tr) = polls tr"
  "polls (Slept d # tr) = polls tr"
  by (simp_all add: polls_def)
lemma sleeps_simps [simp]:
  "sleeps [] = []"
  "sleeps (Submitted kind k # tr) = sleeps tr"
  "sleeps (Polled opname j # tr) = sleeps tr"
  "sleeps (Fetched name # tr) = sleeps tr"
  "sleeps (Printf f as # tr) = sleeps tr"
  "sleeps (Logged f as # tr) = sleeps tr"
  "sleeps (Slept d # tr) = d # sleeps tr"
  by (simp_all add: sleeps_def)

lemma wait_operation_pending:
  assumes "get k = Inr operation" and "Status operation \<noteq> ''DONE''"
  shows "wait_operation kind get opname k tr =
         wait_operation kind get opname (Suc k)
           (tr @ [Polled opname k, Printf (waiting_fmt kind) [S (Status operation)], Slept 2])"
  using assms by (subst wait_operation.simps) simp

lemma wait_operation_skip:
  assumes "\<forall>j<n. \<exists>operation. get (k + j) = Inr operation \<and> Status operation \<noteq> ''DONE''"
  shows "\<exists>tr'. wait_operation kind get opname k tr = wait_operation kind get opname (k + n) tr'
           \<and> polls tr' = polls tr + n \<and> sleeps tr' = sleeps tr @ replicate n 2
           \<and> submissions tr' = submissions tr"
  using assms
proof (induction n arbitrary: k tr)
  case 0
  show ?case by (intro exI [of _ tr]) simp
next
  case (Suc n)
  from Suc.prems obtain operation where op: "get k = Inr operation" "Status operation \<noteq> ''DONE''"
    by force
  have "\<forall>j<n. \<exists>operation. get (Suc k + j) = Inr operation \<and> Status operation \<noteq> ''DONE''"
    using Suc.prems by (metis Suc_less_eq add_Suc_shift)
  from Suc.IH [OF this] obtain tr' where
    "wait_operation kind get opname (Suc k)
       (tr @ [Polled opname k, Printf (waiting_fmt kind) [S (Status operation)], Slept 2]) =
     wait_operation kind get opname (Suc k + n) tr'"
    "polls tr' = polls (tr @ [Polled opname k, Printf (waiting_fmt kind) [S (Status operation)], Slept 2]) + n"
    "sleeps tr' = sleeps (tr @ [Polled opname k, Printf (waiting_fmt kind) [S (Status operation)], Slept 2]) @ replicate n 2"
    "submissions tr' = submissions (tr @ [Polled opname k, Printf (waiting_fmt kind) [S (Status operation)], Slept 2])"
    by blast
  then show ?case
    using wait_operation_pending [of get k operation kind opname tr] op
    by (intro exI [of _ tr']) (simp add: replicate_app_Cons_same)
qed

lemma wait_operation_end:
  assumes "(\<exists>e. get n = Inl e) \<or> (\<exists>operation. get n = Inr operation \<and> Status operation = ''DONE'')"
  shows "\<exists>r tr'. wait_operation kind get opname n tr = Some (r, tr')
           \<and> polls tr' = Suc (polls tr) \<and> sleeps tr' = sleeps tr \<and> submissions tr' = submissions tr
           \<and> (r = None \<longleftrightarrow> (\<exists>operation. get n = Inr operation \<and> Error operation = None))
           \<and> (\<forall>e. get n = Inl e \<longrightarrow> r = Some (Errorf (status_check_fmt kind) [E e]))
           \<and> (\<forall>operation operr. get n = Inr operation \<and> Error operation = Some operr
                 \<longrightarrow> r = Some (Errorf (operation_failed_fmt kind) [S operr]))"
  using assms by (subst wait_operation.simps) (auto split: sum.splits option.splits)

declare CreateInstance_loop.simps [simp del]

lemma CreateInstance_loop_retry:
  assumes "attempt < maxRetries" and "Instances_Insert svc zone name attempt = Inl e" and "retryable e"
  shows "\<exists>tr'. CreateInstance_loop svc name zone attempt tr = CreateInstance_loop svc name zone (Suc attempt) tr'
           \<and> submissions tr' = submissions tr @ [attempt]
           \<and> sleeps tr' = sleeps tr @ [2 ^ attempt] \<and> polls tr' = polls tr"
  using assms
  apply (subst CreateInstance_loop.simps)
  apply (simp only: if_True sum.case)
  apply (rule exI, rule conjI, rule refl)
  apply simp
  done

lemma CreateInstance_loop_retries:
  assumes "\<forall>j<n. \<exists>e. Instances_Insert svc zone name (attempt + j) = Inl e \<and> retryable e"
    and "attempt + n \<le> maxRetries"
  shows "\<exists>tr'. CreateInstance_loop svc name zone attempt tr = CreateInstance_loop svc name zone (attempt + n) tr'
           \<and> submissions tr' = submissions tr @ [attempt..<attempt + n]
           \<and> sleeps tr' = sleeps tr @ map (\<lambda>k. 2 ^ k) [attempt..<attempt + n]
           \<and> polls tr' = polls tr"
  using assms
proof (induction n arbitrary: attempt tr)
  case 0
  show ?case by (intro exI [of _ tr]) simp
next
  case (Suc n)
  from Suc.prems obtain e where e: "Instances_Insert svc zone name attempt = Inl e" "retryable e"
    by force
  have lt: "attempt < maxRetries" using Suc.prems by simp
  from CreateInstance_loop_retry [OF lt e, where tr = tr] obtain tr1 where tr1:
    "CreateInstance_loop svc name zone attempt tr = CreateInstance_loop svc name zone (Suc attempt) tr1"
    "submissions tr1 = submissions tr @ [attempt]"
    "sleeps tr1 = sleeps tr @ [2 ^ attempt]" "polls tr1 = polls tr"
    by blast
  have "\<forall>j<n. \<exists>e. Instances_Insert svc zone name (Suc attempt + j) = Inl e \<and> retryable e"
    using Suc.prems(1) by (metis Suc_less_eq add_Suc_shift)
  moreover have "Suc attempt + n \<le> maxRetries" using Suc.prems by simp
  ultimately obtain tr2 where tr2:
    "CreateInstance_loop svc name zone (Suc attempt) tr1 = CreateInstance_loop svc name zone (Suc attempt + n) tr2"
    "submissions tr2 = submissions tr1 @ [Suc attempt..<Suc attempt + n]"
    "sleeps tr2 = sleeps tr1 @ map (\<lambda>k. 2 ^ k) [Suc attempt..<Suc attempt + n]"
    "polls tr2 = polls tr1"
    using Suc.IH [of "Suc attempt" tr1] by blast
  have up: "[attempt..<Suc (attempt + n)] = attempt # [Suc attempt..<Suc (attempt + n)]"
    by (rule upt_rec [THEN trans]) simp
  show ?case
    using tr1 tr2 by (intro exI [of _ tr2]) (simp add: up del: upt_Suc)
qed

lemma CreateInstance_loop_fatal:
  assumes "attempt < maxRetries" and "Instances_Insert svc zone name attempt = Inl e" and "\<not> retryable e"
  shows "CreateInstance_loop svc name zone attempt tr =
         Some ((\<lambda>err. Return ('''', '''', err)) (Some (Errorf ''non-retryable error: %v'' [E e])), tr @ [Submitted InstanceCreate attempt])"
  using assms by (subst CreateInstance_loop.simps) simp

lemma CreateInstance_loop_exhausted:
  "CreateInstance_loop svc name zone maxRetries tr =
   Some ((\<lambda>err. Return ('''', '''', err)) (Some (Errorf ''failed to create instance after %d retries'' [I (int maxRetries)])), tr)"
  by (subst CreateInstance_loop.simps) simp

declare DeleteInstance_loop.simps [simp del]

lemma DeleteInstance_loop_retry:
  assumes "attempt < maxRetries" and "Instances_Delete svc zone instanceID attempt = Inl e" and "retryable e"
  shows "\<exists>tr'. DeleteInstance_loop svc zone instanceID attempt tr = DeleteInstance_loop svc zone instanceID (Suc attempt) tr'
           \<and> submissions tr' = submissions tr @ [attempt]
           \<and> sleeps tr' = sleeps tr @ [2 ^ attempt] \<and> polls tr' = polls tr"
  using assms
  apply (subst DeleteInstance_loop.simps)
  apply (simp only: if_True sum.case)
  apply (rule exI, rule conjI, rule refl)
  apply simp
  done

lemma DeleteInstance_loop_retries:
  assumes "\<forall>j<n. \<exists>e. Instances_Delete svc zone instanceID (attempt + j) = Inl e \<and> retryable e"
    and "attempt + n \<le> maxRetries"
  shows "\<exists>tr'. DeleteInstance_loop svc zone instanceID attempt tr = DeleteInstance_loop svc zone instanceID (attempt + n) tr'
           \<and> submissions tr' = submissions tr @ [attempt..<attempt + n]
           \<and> sleeps tr' = sleeps tr @ map (\<lambda>k. 2 ^ k) [attempt..<attempt + n]
           \<and> polls tr' = polls tr"
  using assms
proof (induction n arbitrary: attempt tr)
  case 0
  show ?case by (intro exI [of _ tr]) simp
next
  case (Suc n)
  from Suc.prems obtain e where e: "Instances_Delete svc zone instanceID attempt = Inl e" "retryable e"
    by force
  have lt: "attempt < maxRetries" using Suc.prems by simp
  from DeleteInstance_loop_retry [OF lt e, where tr = tr] obtain tr1 where tr1:
    "DeleteInstance_loop svc zone instanceID attempt tr = DeleteInstance_loop svc zone instanceID (Suc attempt) tr1"
    "submissions tr1 = submissions tr @ [attempt]"
    "sleeps tr1 = sleeps tr @ [2 ^ attempt]" "polls tr1 = polls tr"
    by blast
  have "\<forall>j<n. \<exists>e. Instances_Delete svc zone instanceID (Suc attempt + j) = Inl e \<and> retryable e"
    using Suc.prems(1) by (metis Suc_less_eq add_Suc_shift)
  moreover have "Suc attempt + n \<le> maxRetries" using Suc.prems by simp
  ultimately obtain tr2 where tr2:
    "DeleteInstance_loop svc zone instanceID (Suc attempt) tr1 = DeleteInstance_loop svc zone instanceID (Suc attempt + n) tr2"
    "submissions tr2 = submissions tr1 @ [Suc attempt..<Suc attempt + n]"
    "sleeps tr2 = sleeps tr1 @ map (\<lambda>k. 2 ^ k) [Suc attempt..<Suc attempt + n]"
    "polls tr2 = polls tr1"
    using Suc.IH [of "Suc attempt" tr1] by blast
  have up: "[attempt..<Suc (attempt + n)] = attempt # [Suc attempt..<Suc (attempt + n)]"
    by (rule upt_rec [THEN trans]) simp
  show ?case
    using tr1 tr2 by (intro exI [of _ tr2]) (simp add: up del: upt_Suc)
qed

lemma DeleteInstance_loop_fatal:
  assumes "attempt < maxRetries" and "Instances_Delete svc zone instanceID attempt = Inl e" and "\<not> retryable e"
  shows "DeleteInstance_loop svc zone instanceID attempt tr =
         Some ( (Some (Errorf ''non-retryable error: %v'' [E e])), tr @ [Submitted InstanceDelete attempt])"
  using assms by (subst DeleteInstance_loop.simps) simp

lemma DeleteInstance_loop_exhausted:
  "DeleteInstance_loop svc zone instanceID maxRetries tr =
   Some ( (Some (Errorf ''failed to delete instance after %d retries'' [I (int maxRetries)])), tr)"
  by (subst DeleteInstance_loop.simps) simp

declare DeleteDisk_loop.simps [simp del]

lemma DeleteDisk_loop_retry:
  assumes "attempt < maxRetries" and "Disks_Delete svc zone diskID attempt = Inl e" and "retryable e"
  shows "\<exists>tr'. DeleteDisk_loop svc zone diskID attempt tr = DeleteDisk_loop svc zone diskID (Suc attempt) tr'
           \<and> submissions tr' = submissions tr @ [attempt]
           \<and> sleeps tr' = sleeps tr @ [2 ^ attempt] \<and> polls tr' = polls tr"
  using assms
  apply (subst DeleteDisk_loop.simps)
  apply (simp only: if_True sum.case)
  apply (rule exI, rule conjI, rule refl)
  apply simp
  done

lemma DeleteDisk_loop_retries:
  assumes "\<forall>j<n. \<exists>e. Disks_Delete svc zone diskID (attempt + j) = Inl e \<and> retryable e"
    and "attempt + n \<le> maxRetries"
  shows "\<exists>tr'. DeleteDisk_loop svc zone diskID attempt tr = DeleteDisk_loop svc zone diskID (attempt + n) tr'
           \<and> submissions tr' = submissions tr @ [attempt..<attempt + n]
           \<and> sleeps tr' = sleeps tr @ map (\<lambda>k. 2 ^ k) [attempt..<attempt + n]
           \<and> polls tr' = polls tr"
  using assms
proof (induction n arbitrary: attempt tr)
  case 0
  show ?case by (intro exI [of _ tr]) simp
next
  case (Suc n)
  from Suc.prems obtain e where e: "Disks_Delete svc zone diskID attempt = Inl e" "retryable e"
    by force
  have lt: "attempt < maxRetries" using Suc.prems by simp
  from DeleteDisk_loop_retry [OF lt e, where tr = tr] obtain tr1 where tr1:
    "DeleteDisk_loop svc zone diskID attempt tr = DeleteDisk_loop svc zone diskID (Suc attempt) tr1"
    "submissions tr1 = submissions tr @ [attempt]"
    "sleeps tr1 = sleeps tr @ [2 ^ attempt]" "polls tr1 = polls tr"
    by blast
  have "\<forall>j<n. \<exists>e. Disks_Delete svc zone diskID (Suc attempt + j) = Inl e \<and> retryable e"
    using Suc.prems(1) by (metis Suc_less_eq add_Suc_shift)
  moreover have "Suc attempt + n \<le> maxRetries" using Suc.prems by simp
  ultimately obtain tr2 where tr2:
    "DeleteDisk_loop svc zone diskID (Suc attempt) tr1 = DeleteDisk_loop svc zone diskID (Suc attempt + n) tr2"
    "submissions tr2 = submissions tr1 @ [Suc attempt..<Suc attempt + n]"
    "sleeps tr2 = sleeps tr1 @ map (\<lambda>k. 2 ^ k) [Suc attempt..<Suc attempt + n]"
    "polls tr2 = polls tr1"
    using Suc.IH [of "Suc attempt" tr1] by blast
  have up: "[attempt..<Suc (attempt + n)] = attempt # [Suc attempt..<Suc (attempt + n)]"
    by (rule upt_rec [THEN trans]) simp
  show ?case
    using tr1 tr2 by (intro exI [of _ tr2]) (simp add: up del: upt_Suc)
qed

lemma DeleteDisk_loop_fatal:
  assumes "attempt < maxRetries" and "Disks_Delete svc zone diskID attempt = Inl e" and "\<not> retryable e"
  shows "DeleteDisk_loop svc zone diskID attempt tr =
         Some ( (Some (Errorf ''non-retryable error deleteing disk: %v'' [E e])), tr @ [Submitted DiskDelete attempt])"
  using assms by (subst DeleteDisk_loop.simps) simp

lemma DeleteDisk_loop_exhausted:
  "DeleteDisk_loop svc zone diskID maxRetries tr =
   Some ( (Some (Errorf ''failed to delete disk after %d retries'' [I (int maxRetries)])), tr)"
  by (subst DeleteDisk_loop.simps) simp

lemma retryable_iff: "retryable e \<longleftrightarrow> (\<exists>code msg. e = GoogleapiError code msg \<and> 500 \<le> code)"
  by (cases e) auto

lemma upt_0_5: "[0..<5] = [0, 1, 2, 3, 4]"
  by (simp add: upt_rec)

lemma CreateInstance_exhausted:
  assumes "\<forall>k<5. \<exists>code msg. Instances_Insert svc zone name k = Inl (GoogleapiError code msg) \<and> 500 \<le> code"
  shows "\<exists>tr. GCPProvider_CreateInstance svc name zone machineType =
            Some (Return ('''', '''',
                    Some (Errorf ''failed to create instance after %d retries'' [I 5])), tr)
          \<and> submissions tr = [0, 1, 2, 3, 4] \<and> sleeps tr = [1, 2, 4, 8, 16] \<and> polls tr = 0"
proof -
  have "\<forall>j<5. \<exists>e. Instances_Insert svc zone name (0 + j) = Inl e \<and> retryable e"
    using assms by (auto simp: retryable_iff)
  from CreateInstance_loop_retries [OF this, where tr = "[]"] obtain tr where
    "CreateInstance_loop svc name zone 0 [] = CreateInstance_loop svc name zone 5 tr"
    "submissions tr = [0..<5]" "sleeps tr = map (\<lambda>k. 2 ^ k) [0..<5]" "polls tr = 0"
    by (auto simp: maxRetries_def)
  then show ?thesis
    using CreateInstance_loop_exhausted [of svc name zone tr]
    by (intro exI [of _ tr]) (simp add: GCPProvider_CreateInstance_def maxRetries_def upt_0_5)
qed

lemma DeleteInstance_exhausted:
  assumes "\<forall>k<5. \<exists>code msg. Instances_Delete svc zone instanceID k = Inl (GoogleapiError code msg) \<and> 500 \<le> code"
  shows "\<exists>tr. GCPProvider_DeleteInstance svc zone instanceID =
            Some (Some (Errorf ''failed to delete instance after %d retries'' [I 5]), tr)
          \<and> submissions tr = [0, 1, 2, 3, 4] \<and> sleeps tr = [1, 2, 4, 8, 16] \<and> polls tr = 0"
proof -
  have "\<forall>j<5. \<exists>e. Instances_Delete svc zone instanceID (0 + j) = Inl e \<and> retryable e"
    using assms by (auto simp: retryable_iff)
  from DeleteInstance_loop_retries [OF this,
      where tr = "[Printf ''Attempting to delete instance %s in zone %s\<newline>'' [S instanceID, S zone]]"]
  obtain tr where
    "GCPProvider_DeleteInstance svc zone instanceID = DeleteInstance_loop svc zone instanceID 5 tr"
    "submissions tr = [0..<5]" "sleeps tr = map (\<lambda>k. 2 ^ k) [0..<5]" "polls tr = 0"
    by (auto simp: maxRetries_def GCPProvider_DeleteInstance_def)
  then show ?thesis
    using DeleteInstance_loop_exhausted [of svc zone instanceID tr]
    by (intro exI [of _ tr]) (simp add: maxRetries_def upt_0_5)
qed

lemma DeleteDisk_exhausted:
  assumes "\<forall>k<5. \<exists>code msg. Disks_Delete svc zone diskID k = Inl (GoogleapiError code msg) \<and> 500 \<le> code"
  shows "\<exists>tr. GCPProvider_DeleteDisk svc zone diskID =
            Some (Some (Errorf ''failed to delete disk after %d retries'' [I 5]), tr)
          \<and> submissions tr = [0, 1, 2, 3, 4] \<and> sleeps tr = [1, 2, 4, 8, 16] \<and> polls tr = 0"
proof -
  have "\<forall>j<5. \<exists>e. Disks_Delete svc zone diskID (0 + j) = Inl e \<and> retryable e"
    using assms by (auto simp: retryable_iff)
  from DeleteDisk_loop_retries [OF this,
      where tr = "[Printf ''attempting to delete disk %s in zone %s\<newline>'' [S diskID, S zone]]"]
  obtain tr where
    "GCPProvider_DeleteDisk svc zone diskID = DeleteDisk_loop svc zone diskID 5 tr"
    "submissions tr = [0..<5]" "sleeps tr = map (\<lambda>k. 2 ^ k) [0..<5]" "polls tr = 0"
    by (auto simp: maxRetries_def GCPProvider_DeleteDisk_def)
  then show ?thesis
    using DeleteDisk_loop_exhausted [of svc zone diskID tr]
    by (intro exI [of _ tr]) (simp add: maxRetries_def upt_0_5)
qed

text \<open>
  The three provider calls of gcp.go. When every submission of a provider call (instance
  create, instance delete, disk delete) fails with a \<^verbatim>\<open>*googleapi.Error\<close> whose code is at least 500, the
  retry loop submits exactly five times (attempts 0 to 4), sleeps 1, 2, 4, 8 and 16
  seconds (\<open>2 ^ k\<close> seconds after attempt \<open>k\<close>), never polls an operation, and returns
  the "failed to ... after 5 retries" error, which is not the provider's error.
\<close>

theorem retries_exhausted_after_five_attempts:
  "((\<forall>k<5. \<exists>code msg. Instances_Insert svc zone name k = Inl (GoogleapiError code msg) \<and> 500 \<le> code)
      \<longrightarrow> (\<exists>tr. GCPProvider_CreateInstance svc name zone machineType =
                 Some (Return ('''', '''',
                         Some (Errorf ''failed to create instance after %d retries'' [I 5])), tr)
               \<and> submissions tr = [0, 1, 2, 3, 4] \<and> sleeps tr = [1, 2, 4, 8, 16] \<and> polls tr = 0))
   \<and> ((\<forall>k<5. \<exists>code msg. Instances_Delete svc zone instanceID k = Inl (GoogleapiError code msg) \<and> 500 \<le> code)
      \<longrightarrow> (\<exists>tr. GCPProvider_DeleteInstance svc zone instanceID =
                 Some (Some (Errorf ''failed to delete instance after %d retries'' [I 5]), tr)
               \<and> submissions tr = [0, 1, 2, 3, 4] \<and> sleeps tr = [1, 2, 4, 8, 16] \<and> polls tr = 0))
   \<and> ((\<forall>k<5. \<exists>code msg. Disks_Delete svc zone diskID k = Inl (GoogleapiError code msg) \<and> 500 \<le> code)
      \<longrightarrow> (\<exists>tr. GCPProvider_DeleteDisk svc zone diskID =
                 Some (Some (Errorf ''failed to delete disk after %d retries'' [I 5]), tr)
               \<and> submissions tr = [0, 1, 2, 3, 4] \<and> sleeps tr = [1, 2, 4, 8, 16] \<and> polls tr = 0))"
  using CreateInstance_exhausted [of svc zone name machineType]
    DeleteInstance_exhausted [of svc zone instanceID] DeleteDisk_exhausted [of svc zone diskID]
  by blast

theorem retries_exhausted_after_five_attempts_witness:
  "(\<exists>tr. GCPProvider_CreateInstance always_503 ''p1'' ''z1'' ''m1'' =
                 Some (Return ('''', '''',
                         Some (Errorf ''failed to create instance after %d retries'' [I 5])), tr)
               \<and> submissions tr = [0, 1, 2, 3, 4] \<and> sleeps tr = [1, 2, 4, 8, 16] \<and> polls tr = 0)
   \<and> (\<exists>tr. GCPProvider_DeleteInstance always_503 ''z1'' ''p1'' =
                 Some (Some (Errorf ''failed to delete instance after %d retries'' [I 5]), tr)
               \<and> submissions tr = [0, 1, 2, 3, 4] \<and> sleeps tr = [1, 2, 4, 8, 16] \<and> polls tr = 0)
   \<and> (\<exists>tr. GCPProvider_DeleteDisk always_503 ''z1'' ''d1'' =
                 Some (Some (Errorf ''failed to delete disk after %d retries'' [I 5]), tr)
               \<and> submissions tr = [0, 1, 2, 3, 4] \<and> sleeps tr = [1, 2, 4, 8, 16] \<and> polls tr = 0)"
  using retries_exhausted_after_five_attempts [of always_503 "''z1''" "''p1''" "''m1''" "''p1''" "''d1''"]
  by (simp add: always_503_def)

lemma fatal_iff:
  "((\<exists>code msg. e = GoogleapiError code msg \<and> code < 500) \<or> (\<forall>code msg. e \<noteq> GoogleapiError code msg))
     \<longleftrightarrow> \<not> retryable e"
  by (cases e) auto

lemma CreateInstance_fatal:
  assumes "n < 5"
    and "\<forall>j<n. \<exists>code msg. Instances_Insert svc zone name j = Inl (GoogleapiError code msg) \<and> 500 \<le> code"
    and "Instances_Insert svc zone name n = Inl e"
    and "(\<exists>code msg. e = GoogleapiError code msg \<and> code < 500) \<or> (\<forall>code msg. e \<noteq> GoogleapiError code msg)"
  shows "\<exists>tr. GCPProvider_CreateInstance svc name zone machineType =
            Some (Return ('''', '''', Some (Errorf ''non-retryable error: %v'' [E e])), tr)
          \<and> submissions tr = [0..<Suc n] \<and> sleeps tr = map (\<lambda>k. 2 ^ k) [0..<n] \<and> polls tr = 0"
proof -
  have "\<forall>j<n. \<exists>e. Instances_Insert svc zone name (0 + j) = Inl e \<and> retryable e"
    using assms(2) by (auto simp: retryable_iff)
  moreover have "0 + n \<le> maxRetries" using assms(1) by (simp add: maxRetries_def)
  ultimately obtain tr where tr:
    "CreateInstance_loop svc name zone 0 [] = CreateInstance_loop svc name zone n tr"
    "submissions tr = [0..<n]" "sleeps tr = map (\<lambda>k. 2 ^ k) [0..<n]" "polls tr = 0"
    using CreateInstance_loop_retries [of n svc zone name 0 "[]"] by auto
  have lt: "n < maxRetries" using assms(1) by (simp add: maxRetries_def)
  have nr: "\<not> retryable e" using assms(4) fatal_iff [of e] by blast
  show ?thesis
    using tr CreateInstance_loop_fatal [OF lt assms(3) nr, of tr] by (intro exI [of _ "tr @ [Submitted InstanceCreate n]"])
      (simp add: GCPProvider_CreateInstance_def)
qed

lemma DeleteInstance_fatal:
  assumes "n < 5"
    and "\<forall>j<n. \<exists>code msg. Instances_Delete svc zone instanceID j = Inl (GoogleapiError code msg) \<and> 500 \<le> code"
    and "Instances_Delete svc zone instanceID n = Inl e"
    and "(\<exists>code msg. e = GoogleapiError code msg \<and> code < 500) \<or> (\<forall>code msg. e \<noteq> GoogleapiError code msg)"
  shows "\<exists>tr. GCPProvider_DeleteInstance svc zone instanceID =
            Some (Some (Errorf ''non-retryable error: %v'' [E e]), tr)
          \<and> submissions tr = [0..<Suc n] \<and> sleeps tr = map (\<lambda>k. 2 ^ k) [0..<n] \<and> polls tr = 0"
proof -
  have "\<forall>j<n. \<exists>e. Instances_Delete svc zone instanceID (0 + j) = Inl e \<and> retryable e"
    using assms(2) by (auto simp: retryable_iff)
  moreover have "0 + n \<le> maxRetries" using assms(1) by (simp add: maxRetries_def)
  ultimately obtain tr where tr:
    "GCPProvider_DeleteInstance svc zone instanceID = DeleteInstance_loop svc zone instanceID n tr"
    "submissions tr = [0..<n]" "sleeps tr = map (\<lambda>k. 2 ^ k) [0..<n]" "polls tr = 0"
    using DeleteInstance_loop_retries [of n svc zone instanceID 0
        "[Printf ''Attempting to delete instance %s in zone %s\<newline>'' [S instanceID, S zone]]"]
    by (auto simp: GCPProvider_DeleteInstance_def)
  have lt: "n < maxRetries" using assms(1) by (simp add: maxRetries_def)
  have nr: "\<not> retryable e" using assms(4) fatal_iff [of e] by blast
  show ?thesis
    using tr DeleteInstance_loop_fatal [OF lt assms(3) nr, of tr] by (intro exI [of _ "tr @ [Submitted InstanceDelete n]"]) simp
qed

lemma DeleteDisk_fatal:
  assumes "n < 5"
    and "\<forall>j<n. \<exists>code msg. Disks_Delete svc zone diskID j = Inl (GoogleapiError code msg) \<and> 500 \<le> code"
    and "Disks_Delete svc zone diskID n = Inl e"
    and "(\<exists>code msg. e = GoogleapiError code msg \<and> code < 500) \<or> (\<forall>code msg. e \<noteq> GoogleapiError code msg)"
  shows "\<exists>tr. GCPProvider_DeleteDisk svc zone diskID =
            Some (Some (Errorf ''non-retryable error deleteing disk: %v'' [E e]), tr)
          \<and> submissions tr = [0..<Suc n] \<and> sleeps tr = map (\<lambda>k. 2 ^ k) [0..<n] \<and> polls tr = 0"
proof -
  have "\<forall>j<n. \<exists>e. Disks_Delete svc zone diskID (0 + j) = Inl e \<and> retryable e"
    using assms(2) by (auto simp: retryable_iff)
  moreover have "0 + n \<le> maxRetries" using assms(1) by (simp add: maxRetries_def)
  ultimately obtain tr where tr:
    "GCPProvider_DeleteDisk svc zone diskID = DeleteDisk_loop svc zone diskID n tr"
    "submissions tr = [0..<n]" "sleeps tr = map (\<lambda>k. 2 ^ k) [0..<n]" "polls tr = 0"
    using DeleteDisk_loop_retries [of n svc zone diskID 0
        "[Printf ''attempting to delete disk %s in zone %s\<newline>'' [S diskID, S zone]]"]
    by (auto simp: GCPProvider_DeleteDisk_def)
  have lt: "n < maxRetries" using assms(1) by (simp add: maxRetries_def)
  have nr: "\<not> retryable e" using assms(4) fatal_iff [of e] by blast
  show ?thesis
    using tr DeleteDisk_loop_fatal [OF lt assms(3) nr, of tr] by (intro exI [of _ "tr @ [Submitted DiskDelete n]"]) simp
qed

text \<open>
  Claim C8. A submission that fails with an error whose code is below 500, or that is
  not a \<^verbatim>\<open>*googleapi.Error\<close> at all, is never retried: the provider call returns the
  "non-retryable error" at once, the failing submission is its last one and no sleep
  follows it. This holds at the first attempt (\<open>n = 0\<close>: one submission, no sleep) and
  after \<open>n\<close> retried attempts alike.
\<close>

theorem fatal_error_is_not_retried:
  "(n < 5
      \<and> (\<forall>j<n. \<exists>code msg. Instances_Insert svc zone name j = Inl (GoogleapiError code msg) \<and> 500 \<le> code)
      \<and> Instances_Insert svc zone name n = Inl e
      \<and> ((\<exists>code msg. e = GoogleapiError code msg \<and> code < 500) \<or> (\<forall>code msg. e \<noteq> GoogleapiError code msg))
      \<longrightarrow> (\<exists>tr. GCPProvider_CreateInstance svc name zone machineType =
                 Some (Return ('''', '''', Some (Errorf ''non-retryable error: %v'' [E e])), tr)
               \<and> submissions tr = [0..<Suc n] \<and> sleeps tr = map (\<lambda>k. 2 ^ k) [0..<n] \<and> polls tr = 0))
   \<and> (n < 5
      \<and> (\<forall>j<n. \<exists>code msg. Instances_Delete svc zone instanceID j = Inl (GoogleapiError code msg) \<and> 500 \<le> code)
      \<and> Instances_Delete svc zone instanceID n = Inl e
      \<and> ((\<exists>code msg. e = GoogleapiError code msg \<and> code < 500) \<or> (\<forall>code msg. e \<noteq> GoogleapiError code msg))
      \<longrightarrow> (\<exists>tr. GCPProvider_DeleteInstance svc zone instanceID =
                 Some (Some (Errorf ''non-retryable error: %v'' [E e]), tr)
               \<and> submissions tr = [0..<Suc n] \<and> sleeps tr = map (\<lambda>k. 2 ^ k) [0..<n] \<and> polls tr = 0))
   \<and> (n < 5
      \<and> (\<forall>j<n. \<exists>code msg. Disks_Delete svc zone diskID j = Inl (GoogleapiError code msg) \<and> 500 \<le> code)
      \<and> Disks_Delete svc zone diskID n = Inl e
      \<and> ((\<exists>code msg. e = GoogleapiError code msg \<and> code < 500) \<or> (\<forall>code msg. e \<noteq> GoogleapiError code msg))
      \<longrightarrow> (\<exists>tr. GCPProvider_DeleteDisk svc zone diskID =
                 Some (Some (Errorf ''non-retryable error deleteing disk: %v'' [E e]), tr)
               \<and> submissions tr = [0..<Suc n] \<and> sleeps tr = map (\<lambda>k. 2 ^ k) [0..<n] \<and> polls tr = 0))"
  using CreateInstance_fatal [of n svc zone name e machineType]
    DeleteInstance_fatal [of n svc zone instanceID e] DeleteDisk_fatal [of n svc zone diskID e]
  by blast

theorem fatal_error_is_not_retried_witness:
  "(\<exists>tr. GCPProvider_CreateInstance (fails_then_404 0 (GoogleapiError 404 ''not found'')) ''p1'' ''z1'' ''m1'' =
            Some (Return ('''', '''',
                    Some (Errorf ''non-retryable error: %v'' [E (GoogleapiError 404 ''not found'')])), tr)
          \<and> submissions tr = [0] \<and> sleeps tr = [] \<and> polls tr = 0)
   \<and> (\<exists>tr. GCPProvider_DeleteInstance (fails_then_404 0 (GoogleapiError 404 ''not found'')) ''z1'' ''p1'' =
            Some (Some (Errorf ''non-retryable error: %v'' [E (GoogleapiError 404 ''not found'')]), tr)
          \<and> submissions tr = [0] \<and> sleeps tr = [] \<and> polls tr = 0)
   \<and> (\<exists>tr. GCPProvider_DeleteDisk (fails_then_404 0 (GoogleapiError 404 ''not found'')) ''z1'' ''d1'' =
            Some (Some (Errorf ''non-retryable error deleteing disk: %v'' [E (GoogleapiError 404 ''not found'')]), tr)
          \<and> submissions tr = [0] \<and> sleeps tr = [] \<and> polls tr = 0)
   \<and> (\<exists>tr. GCPProvider_DeleteDisk (fails_then_404 2 (OtherError ''connection reset'')) ''z1'' ''d1'' =
            Some (Some (Errorf ''non-retryable error deleteing disk: %v'' [E (OtherError ''connection reset'')]), tr)
          \<and> submissions tr = [0, 1, 2] \<and> sleeps tr = [1, 2] \<and> polls tr = 0)"
  using fatal_error_is_not_retried [of 0 "fails_then_404 0 (GoogleapiError 404 ''not found'')"
      "''z1''" "''p1''" "GoogleapiError 404 ''not found''" "''m1''" "''p1''" "''d1''"]
    fatal_error_is_not_retried [of 2 "fails_then_404 2 (OtherError ''connection reset'')"
      "''z1''" "''p1''" "OtherError ''connection reset''" "''m1''" "''p1''" "''d1''"]
  by (simp add: fails_then_404_def upt_rec numeral_2_eq_2)

lemma wait_operation_returns_only_at_terminal:
  assumes "wait_operation kind get opname k tr = Some y"
  shows "\<exists>j\<ge>k. (\<exists>e. get j = Inl e) \<or> (\<exists>operation. get j = Inr operation \<and> Status operation = ''DONE'')"
proof (rule wait_operation.raw_induct
    [where P = "\<lambda>kind get opname k tr y.
       \<exists>j\<ge>k. (\<exists>e. get j = Inl e) \<or> (\<exists>operation. get j = Inr operation \<and> Status operation = ''DONE'')",
     OF _ assms])
  fix w :: "op_kind \<Rightarrow> (nat \<Rightarrow> error + Operation) \<Rightarrow> string \<Rightarrow> nat \<Rightarrow> gcp_event list
              \<Rightarrow> (error option \<times> gcp_event list) option"
  fix kind get opname k tr y
  assume IH: "\<And>kind get opname k tr y. w kind get opname k tr = Some y \<Longrightarrow>
      \<exists>j\<ge>k. (\<exists>e. get j = Inl e) \<or> (\<exists>operation. get j = Inr operation \<and> Status operation = ''DONE'')"
  assume step: "(case get k of
        Inl err \<Rightarrow> Some (Some (Errorf (status_check_fmt kind) [E err]), tr @ [Polled opname k])
      | Inr operation \<Rightarrow>
          if Status operation = ''DONE'' then
            (case Error operation of
               None \<Rightarrow> Some (None, tr @ [Polled opname k])
             | Some operr \<Rightarrow>
                 Some (Some (Errorf (operation_failed_fmt kind) [S operr]), tr @ [Polled opname k]))
          else w kind get opname (Suc k)
                 (tr @ [Polled opname k, Printf (waiting_fmt kind) [S (Status operation)], Slept 2]))
      = Some y"
  show "\<exists>j\<ge>k. (\<exists>e. get j = Inl e) \<or> (\<exists>operation. get j = Inr operation \<and> Status operation = ''DONE'')"
  proof (cases "get k")
    case (Inl e)
    then show ?thesis by blast
  next
    case (Inr operation)
    show ?thesis
    proof (cases "Status operation = ''DONE''")
      case True
      with Inr show ?thesis by blast
    next
      case False
      with step Inr have "w kind get opname (Suc k)
          (tr @ [Polled opname k, Printf (waiting_fmt kind) [S (Status operation)], Slept 2]) = Some y"
        by simp
      from IH [OF this] obtain j where "j \<ge> Suc k"
        "(\<exists>e. get j = Inl e) \<or> (\<exists>operation. get j = Inr operation \<and> Status operation = ''DONE'')"
        by blast
      then show ?thesis by (intro exI [of _ j]) simp
    qed
  qed
qed

lemma wait_operation_never_returns:
  assumes "\<forall>j. \<exists>operation. get j = Inr operation \<and> Status operation \<noteq> ''DONE''"
  shows "wait_operation kind get opname 0 [] = None"
proof (cases "wait_operation kind get opname 0 []")
  case None
  then show ?thesis .
next
  case (Some y)
  from wait_operation_returns_only_at_terminal [OF this] assms show ?thesis
    by (metis Inl_Inr_False sum.inject(2))
qed

section \<open>The earlier DeleteInstance after five failed submissions\<close>

declare legacy_instance_loop.simps [simp del]

declare legacy_disk_loop.simps [simp del]

lemma legacy_instance_loop_retry:
  assumes "attempt < maxRetries" and "Instances_Delete svc zone instanceID attempt = Inl e"
    and "retryable e"
  shows "\<exists>tr'. legacy_instance_loop svc zone instanceID bootDisk attempt tr
               = legacy_instance_loop svc zone instanceID bootDisk (Suc attempt) tr'
           \<and> submissions tr' = submissions tr @ [attempt]
           \<and> sleeps tr' = sleeps tr @ [2 ^ attempt] \<and> polls tr' = polls tr"
  using assms
  apply (subst legacy_instance_loop.simps)
  apply (simp only: if_True sum.case)
  apply (rule exI, rule conjI, rule refl)
  apply simp
  done

lemma legacy_instance_loop_retries:
  assumes "\<forall>j<n. \<exists>e. Instances_Delete svc zone instanceID (attempt + j) = Inl e \<and> retryable e"
    and "attempt + n \<le> maxRetries"
  shows "\<exists>tr'. legacy_instance_loop svc zone instanceID bootDisk attempt tr
               = legacy_instance_loop svc zone instanceID bootDisk (attempt + n) tr'
           \<and> submissions tr' = submissions tr @ [attempt..<attempt + n]
           \<and> sleeps tr' = sleeps tr @ map (\<lambda>k. 2 ^ k) [attempt..<attempt + n]
           \<and> polls tr' = polls tr"
  using assms
proof (induction n arbitrary: attempt tr)
  case 0
  show ?case by (intro exI [of _ tr]) simp
next
  case (Suc n)
  from Suc.prems obtain e where e: "Instances_Delete svc zone instanceID attempt = Inl e" "retryable e"
    by force
  have lt: "attempt < maxRetries" using Suc.prems by simp
  from legacy_instance_loop_retry [OF lt e, where tr = tr and bootDisk = bootDisk] obtain tr1 where tr1:
    "legacy_instance_loop svc zone instanceID bootDisk attempt tr
       = legacy_instance_loop svc zone instanceID bootDisk (Suc attempt) tr1"
    "submissions tr1 = submissions tr @ [attempt]"
    "sleeps tr1 = sleeps tr @ [2 ^ attempt]" "polls tr1 = polls tr"
    by blast
  have "\<forall>j<n. \<exists>e. Instances_Delete svc zone instanceID (Suc attempt + j) = Inl e \<and> retryable e"
    using Suc.prems(1) by (metis Suc_less_eq add_Suc_shift)
  moreover have "Suc attempt + n \<le> maxRetries" using Suc.prems by simp
  ultimately obtain tr2 where tr2:
    "legacy_instance_loop svc zone instanceID bootDisk (Suc attempt) tr1
       = legacy_instance_loop svc zone instanceID bootDisk (Suc attempt + n) tr2"
    "submissions tr2 = submissions tr1 @ [Suc attempt..<Suc attempt + n]"
    "sleeps tr2 = sleeps tr1 @ map (\<lambda>k. 2 ^ k) [Suc attempt..<Suc attempt + n]"
    "polls tr2 = polls tr1"
    using Suc.IH [of "Suc attempt" tr1] by blast
  have up: "[attempt..<Suc (attempt + n)] = attempt # [Suc attempt..<Suc (attempt + n)]"
    by (rule upt_rec [THEN trans]) simp
  show ?case
    using tr1 tr2 by (intro exI [of _ tr2]) (simp add: up del: upt_Suc)
qed

lemma legacy_DeleteInstance_falls_through:
  assumes "Instances_Get svc zone instanceID = Inr instance"
    and "boot_DiskID (Disks instance) '''' \<noteq> ''''"
    and "\<forall>k<5. \<exists>code msg. Instances_Delete svc zone instanceID k = Inl (GoogleapiError code msg) \<and> 500 \<le> code"
  shows "\<exists>tr. legacy_DeleteInstance svc zone instanceID
               = legacy_disk_loop svc zone instanceID (boot_DiskID (Disks instance) '''') 0 tr
           \<and> submissions tr = [0, 1, 2, 3, 4] \<and> sleeps tr = [1, 2, 4, 8, 16] \<and> polls tr = 0"
proof -
  define bootDisk where "bootDisk = boot_DiskID (Disks instance) ''''"
  define tr0 where "tr0 =
    [Printf ''Attempting to delete instance %s in zone %s\<newline>'' [S instanceID, S zone],
     Fetched instanceID, Printf ''Found boot disk: %s\<newline>'' [S bootDisk]]"
  have start: "legacy_DeleteInstance svc zone instanceID
      = legacy_instance_loop svc zone instanceID bootDisk 0 tr0"
    using assms(1,2) by (simp add: legacy_DeleteInstance_def Let_def bootDisk_def tr0_def)
  have "\<forall>j<5. \<exists>e. Instances_Delete svc zone instanceID (0 + j) = Inl e \<and> retryable e"
    using assms(3) by (auto simp: retryable_iff)
  from legacy_instance_loop_retries [OF this, where tr = tr0 and bootDisk = bootDisk]
  obtain tr where tr:
    "legacy_instance_loop svc zone instanceID bootDisk 0 tr0
       = legacy_instance_loop svc zone instanceID bootDisk 5 tr"
    "submissions tr = [0..<5]" "sleeps tr = map (\<lambda>k. 2 ^ k) [0..<5]" "polls tr = 0"
    by (auto simp: maxRetries_def tr0_def)
  have "legacy_instance_loop svc zone instanceID bootDisk 5 tr
      = legacy_disk_loop svc zone instanceID bootDisk 0 tr"
    by (subst legacy_instance_loop.simps) (simp add: maxRetries_def)
  with start tr show ?thesis
    by (intro exI [of _ tr]) (simp add: upt_0_5 bootDisk_def)
qed

lemma legacy_disk_loop_accepted_done:
  assumes "Disks_Delete svc zone bootDisk 0 = Inr opname"
    and "ZoneOperations_Get svc zone opname 0 = Inr \<lparr>Status = ''DONE'', Error = None\<rparr>"
  shows "legacy_disk_loop svc zone instanceID bootDisk 0 tr =
         Some (None, tr @ [Submitted DiskDelete 0, Polled opname 0,
                           Printf ''Boot disk %s deleted successfully\<newline>'' [S bootDisk]])"
  using assms
  by (subst legacy_disk_loop.simps) (simp add: maxRetries_def legacy_wait_disk.simps)

text \<open>
  Claim C1 fails for the instance deletion of the earlier main.go. With a service
  that answers every \<^verbatim>\<open>Instances.Delete\<close> with a 503 and accepts the deletion of the
  boot disk, \<open>legacy_DeleteInstance\<close> submits the instance deletion five times, sleeps
  1, 2, 4, 8 and 16 seconds, then submits the deletion of the disk and returns nil: no
  error reports the exhausted retries.
\<close>

theorem legacy_DeleteInstance_returns_nil_after_five_failed_attempts:
  "\<exists>tr. legacy_DeleteInstance instance_delete_503 ''z1'' ''p1'' = Some (None, tr)
        \<and> submissions tr = [0, 1, 2, 3, 4, 0] \<and> sleeps tr = [1, 2, 4, 8, 16]
        \<and> polls tr = 1"
proof -
  have get: "Instances_Get instance_delete_503 ''z1'' ''p1''
      = Inr \<lparr>NetworkInterfaces = [nat_interface ''34.1.2.3''],
             Disks = [\<lparr>Boot = True, Source = ''projects/x/zones/z1/disks/d1''\<rparr>]\<rparr>"
    by (simp add: instance_delete_503_def)
  have disk: "boot_DiskID (Disks \<lparr>NetworkInterfaces = [nat_interface ''34.1.2.3''],
             Disks = [\<lparr>Boot = True, Source = ''projects/x/zones/z1/disks/d1''\<rparr>]\<rparr>) '''' = ''d1''"
    by (simp add: Split_def)
  have fail: "\<forall>k<5. \<exists>code msg. Instances_Delete instance_delete_503 ''z1'' ''p1'' k
      = Inl (GoogleapiError code msg) \<and> 500 \<le> code"
    by (simp add: instance_delete_503_def)
  from legacy_DeleteInstance_falls_through [OF get _ fail] disk obtain tr where tr:
    "legacy_DeleteInstance instance_delete_503 ''z1'' ''p1''
       = legacy_disk_loop instance_delete_503 ''z1'' ''p1'' ''d1'' 0 tr"
    "submissions tr = [0, 1, 2, 3, 4]" "sleeps tr = [1, 2, 4, 8, 16]" "polls tr = 0"
    by auto
  have "legacy_disk_loop instance_delete_503 ''z1'' ''p1'' ''d1'' 0 tr =
      Some (None, tr @ [Submitted DiskDelete 0, Polled ''op-disk'' 0,
                        Printf ''Boot disk %s deleted successfully\<newline>'' [S ''d1'']])"
    by (rule legacy_disk_loop_accepted_done) (simp_all add: instance_delete_503_def)
  with tr show ?thesis by simp
qed

section \<open>The provider calls wait for the terminal status\<close>

lemma wait_operation_terminal:
  assumes "\<forall>j<n. \<exists>operation. get j = Inr operation \<and> Status operation \<noteq> ''DONE''"
    and "(\<exists>e. get n = Inl e) \<or> (\<exists>operation. get n = Inr operation \<and> Status operation = ''DONE'')"
  shows "\<exists>r tr'. wait_operation kind get opname 0 tr = Some (r, tr')
           \<and> polls tr' = polls tr + Suc n \<and> sleeps tr' = sleeps tr @ replicate n 2
           \<and> submissions tr' = submissions tr
           \<and> (r = None \<longleftrightarrow> (\<exists>operation. get n = Inr operation \<and> Error operation = None))
           \<and> (\<forall>e. get n = Inl e \<longrightarrow> r = Some (Errorf (status_check_fmt kind) [E e]))
           \<and> (\<forall>operation operr. get n = Inr operation \<and> Error operation = Some operr
                 \<longrightarrow> r = Some (Errorf (operation_failed_fmt kind) [S operr]))"
proof -
  have "\<forall>j<n. \<exists>operation. get (0 + j) = Inr operation \<and> Status operation \<noteq> ''DONE''"
    using assms(1) by simp
  from wait_operation_skip [of n get 0 kind opname tr] this obtain tr0 where tr0:
    "wait_operation kind get opname 0 tr = wait_operation kind get opname n tr0"
    "polls tr0 = polls tr + n" "sleeps tr0 = sleeps tr @ replicate n 2"
    "submissions tr0 = submissions tr"
    by auto
  from wait_operation_end [of get n kind opname tr0] assms(2) tr0 show ?thesis
    by auto
qed

lemma wait_operation_pending_forever:
  assumes "\<forall>j. \<exists>operation. get j = Inr operation \<and> Status operation \<noteq> ''DONE''"
  shows "wait_operation kind get opname k tr = None"
proof (cases "wait_operation kind get opname k tr")
  case None
  then show ?thesis .
next
  case (Some y)
  from wait_operation_returns_only_at_terminal [OF this] assms show ?thesis
    by (metis Inl_Inr_False sum.inject(2))
qed

lemma DeleteInstance_loop_accepted:
  assumes "attempt < maxRetries" and "Instances_Delete svc zone instanceID attempt = Inr opname"
    and "\<forall>j<n. \<exists>operation. ZoneOperations_Get svc zone opname j = Inr operation
            \<and> Status operation \<noteq> ''DONE''"
    and "(\<exists>e. ZoneOperations_Get svc zone opname n = Inl e)
         \<or> (\<exists>operation. ZoneOperations_Get svc zone opname n = Inr operation
               \<and> Status operation = ''DONE'')"
  shows "\<exists>r tr'. DeleteInstance_loop svc zone instanceID attempt tr = Some (r, tr')
           \<and> polls tr' = polls tr + Suc n \<and> sleeps tr' = sleeps tr @ replicate n 2
           \<and> submissions tr' = submissions tr @ [attempt]
           \<and> (r = None \<longleftrightarrow> (\<exists>operation. ZoneOperations_Get svc zone opname n = Inr operation
                                 \<and> Error operation = None))
           \<and> (\<forall>e. ZoneOperations_Get svc zone opname n = Inl e
                 \<longrightarrow> r = Some (Errorf ''failed to check delete operation status: %v'' [E e]))
           \<and> (\<forall>operation operr. ZoneOperations_Get svc zone opname n = Inr operation
                   \<and> Error operation = Some operr
                 \<longrightarrow> r = Some (Errorf ''delete operation failed: %v'' [S operr]))"
proof -
  from wait_operation_terminal [OF assms(3,4), of InstanceDelete opname
      "tr @ [Submitted InstanceDelete attempt]"]
  obtain r tr' where w:
    "wait_operation InstanceDelete (ZoneOperations_Get svc zone opname) opname 0
       (tr @ [Submitted InstanceDelete attempt]) = Some (r, tr')"
    "polls tr' = polls tr + Suc n" "sleeps tr' = sleeps tr @ replicate n 2"
    "submissions tr' = submissions tr @ [attempt]"
    "r = None \<longleftrightarrow> (\<exists>operation. ZoneOperations_Get svc zone opname n = Inr operation
                       \<and> Error operation = None)"
    "\<forall>e. ZoneOperations_Get svc zone opname n = Inl e
       \<longrightarrow> r = Some (Errorf ''failed to check delete operation status: %v'' [E e])"
    "\<forall>operation operr. ZoneOperations_Get svc zone opname n = Inr operation
         \<and> Error operation = Some operr
       \<longrightarrow> r = Some (Errorf ''delete operation failed: %v'' [S operr])"
    by auto
  show ?thesis
  proof (cases r)
    case None
    have "DeleteInstance_loop svc zone instanceID attempt tr =
        Some (None, tr' @ [Printf ''Instance %s deleted successfully\<newline>'' [S instanceID]])"
      using assms(1,2) w(1) None by (subst DeleteInstance_loop.simps) simp
    with w None show ?thesis by simp
  next
    case (Some e)
    have "DeleteInstance_loop svc zone instanceID attempt tr = Some (Some e, tr')"
      using assms(1,2) w(1) Some by (subst DeleteInstance_loop.simps) simp
    with w Some show ?thesis by simp
  qed
qed

lemma DeleteDisk_loop_accepted:
  assumes "attempt < maxRetries" and "Disks_Delete svc zone diskID attempt = Inr opname"
    and "\<forall>j<n. \<exists>operation. ZoneOperations_Get svc zone opname j = Inr operation
            \<and> Status operation \<noteq> ''DONE''"
    and "(\<exists>e. ZoneOperations_Get svc zone opname n = Inl e)
         \<or> (\<exists>operation. ZoneOperations_Get svc zone opname n = Inr operation
               \<and> Status operation = ''DONE'')"
  shows "\<exists>r tr'. DeleteDisk_loop svc zone diskID attempt tr = Some (r, tr')
           \<and> polls tr' = polls tr + Suc n \<and> sleeps tr' = sleeps tr @ replicate n 2
           \<and> submissions tr' = submissions tr @ [attempt]
           \<and> (r = None \<longleftrightarrow> (\<exists>operation. ZoneOperations_Get svc zone opname n = Inr operation
                                 \<and> Error operation = None))
           \<and> (\<forall>e. ZoneOperations_Get svc zone opname n = Inl e
                 \<longrightarrow> r = Some (Errorf ''failed to check disk delete operation status: %v'' [E e]))
           \<and> (\<forall>operation operr. ZoneOperations_Get svc zone opname n = Inr operation
                   \<and> Error operation = Some operr
                 \<longrightarrow> r = Some (Errorf ''disk delete operation failed: %v'' [S operr]))"
proof -
  from wait_operation_terminal [OF assms(3,4), of DiskDelete opname
      "tr @ [Submitted DiskDelete attempt]"]
  obtain r tr' where w:
    "wait_operation DiskDelete (ZoneOperations_Get svc zone opname) opname 0
       (tr @ [Submitted DiskDelete attempt]) = Some (r, tr')"
    "polls tr' = polls tr + Suc n" "sleeps tr' = sleeps tr @ replicate n 2"
    "submissions tr' = submissions tr @ [attempt]"
    "r = None \<longleftrightarrow> (\<exists>operation. ZoneOperations_Get svc zone opname n = Inr operation
                       \<and> Error operation = None)"
    "\<forall>e. ZoneOperations_Get svc zone opname n = Inl e
       \<longrightarrow> r = Some (Errorf ''failed to check disk delete operation status: %v'' [E e])"
    "\<forall>operation operr. ZoneOperations_Get svc zone opname n = Inr operation
         \<and> Error operation = Some operr
       \<longrightarrow> r = Some (Errorf ''disk delete operation failed: %v'' [S operr])"
    by auto
  show ?thesis
  proof (cases r)
    case None
    have "DeleteDisk_loop svc zone diskID attempt tr =
        Some (None, tr' @ [Printf ''Disk %s deleted successfully\<newline>'' [S diskID]])"
      using assms(1,2) w(1) None by (subst DeleteDisk_loop.simps) simp
    with w None show ?thesis by simp
  next
    case (Some e)
    have "DeleteDisk_loop svc zone diskID attempt tr = Some (Some e, tr')"
      using assms(1,2) w(1) Some by (subst DeleteDisk_loop.simps) simp
    with w Some show ?thesis by simp
  qed
qed

lemma CreateInstance_loop_accepted:
  assumes "attempt < maxRetries" and "Instances_Insert svc zone name attempt = Inr opname"
    and "\<forall>j<n. \<exists>operation. ZoneOperations_Get svc zone opname j = Inr operation
            \<and> Status operation \<noteq> ''DONE''"
    and "(\<exists>e. ZoneOperations_Get svc zone opname n = Inl e)
         \<or> (\<exists>operation. ZoneOperations_Get svc zone opname n = Inr operation
               \<and> Status operation = ''DONE'')"
  shows "\<exists>r tr'. CreateInstance_loop svc name zone attempt tr = Some (r, tr')
           \<and> polls tr' = polls tr + Suc n \<and> sleeps tr' = sleeps tr @ replicate n 2
           \<and> submissions tr' = submissions tr @ [attempt]
           \<and> (\<forall>e. ZoneOperations_Get svc zone opname n = Inl e
                 \<longrightarrow> r = Return ('''', '''',
                           Some (Errorf ''failed to check operation status: %v'' [E e])))
           \<and> (\<forall>operation operr. ZoneOperations_Get svc zone opname n = Inr operation
                   \<and> Error operation = Some operr
                 \<longrightarrow> r = Return ('''', '''', Some (Errorf ''operation failed: %v'' [S operr])))
           \<and> (\<forall>operation. ZoneOperations_Get svc zone opname n = Inr operation
                   \<and> Error operation = None
                 \<longrightarrow> r = (case Instances_Get svc zone name of
                            Inl err \<Rightarrow>
                              Return ('''', '''',
                                Some (Errorf ''failed to get instance info: %v'' [E err]))
                          | Inr instanceInfo \<Rightarrow>
                              (case first_NatIP instanceInfo of
                                 Panic \<Rightarrow> Panic
                               | Return ip \<Rightarrow> Return (name, ip, None))))"
proof -
  from wait_operation_terminal [OF assms(3,4), of InstanceCreate opname
      "tr @ [Submitted InstanceCreate attempt]"]
  obtain r tr' where w:
    "wait_operation InstanceCreate (ZoneOperations_Get svc zone opname) opname 0
       (tr @ [Submitted InstanceCreate attempt]) = Some (r, tr')"
    "polls tr' = polls tr + Suc n" "sleeps tr' = sleeps tr @ replicate n 2"
    "submissions tr' = submissions tr @ [attempt]"
    "r = None \<longleftrightarrow> (\<exists>operation. ZoneOperations_Get svc zone opname n = Inr operation
                       \<and> Error operation = None)"
    "\<forall>e. ZoneOperations_Get svc zone opname n = Inl e
       \<longrightarrow> r = Some (Errorf ''failed to check operation status: %v'' [E e])"
    "\<forall>operation operr. ZoneOperations_Get svc zone opname n = Inr operation
         \<and> Error operation = Some operr
       \<longrightarrow> r = Some (Errorf ''operation failed: %v'' [S operr])"
    by auto
  show ?thesis
  proof (cases r)
    case None
    have "CreateInstance_loop svc name zone attempt tr =
        Some (case Instances_Get svc zone name of
                Inl err \<Rightarrow>
                  Return ('''', '''', Some (Errorf ''failed to get instance info: %v'' [E err]))
              | Inr instanceInfo \<Rightarrow>
                  (case first_NatIP instanceInfo of
                     Panic \<Rightarrow> Panic
                   | Return ip \<Rightarrow> Return (name, ip, None)),
              tr' @ [Fetched name])"
      using assms(1,2) w(1) None
      by (subst CreateInstance_loop.simps) (simp split: sum.splits go.splits)
    with w None show ?thesis by auto
  next
    case (Some e)
    have "CreateInstance_loop svc name zone attempt tr = Some (Return ('''', '''', Some e), tr')"
      using assms(1,2) w(1) Some by (subst CreateInstance_loop.simps) simp
    with w Some show ?thesis by auto
  qed
qed

lemma upt_Suc_snoc: "[0..<m] @ [m] = [0..<Suc m]"
  by simp

lemma CreateInstance_waits:
  assumes "m < 5"
    and "\<forall>k<m. \<exists>code msg. Instances_Insert svc zone name k = Inl (GoogleapiError code msg) \<and> 500 \<le> code"
    and "Instances_Insert svc zone name m = Inr opname"
    and "\<forall>j<n. \<exists>operation. ZoneOperations_Get svc zone opname j = Inr operation
            \<and> Status operation \<noteq> ''DONE''"
    and "(\<exists>e. ZoneOperations_Get svc zone opname n = Inl e)
         \<or> (\<exists>operation. ZoneOperations_Get svc zone opname n = Inr operation
               \<and> Status operation = ''DONE'')"
  shows "\<exists>r tr. GCPProvider_CreateInstance svc name zone machineType = Some (r, tr)
           \<and> polls tr = Suc n \<and> submissions tr = [0..<Suc m]
           \<and> sleeps tr = map (\<lambda>k. 2 ^ k) [0..<m] @ replicate n 2
           \<and> (\<forall>e. ZoneOperations_Get svc zone opname n = Inl e
                 \<longrightarrow> r = Return ('''', '''',
                           Some (Errorf ''failed to check operation status: %v'' [E e])))
           \<and> (\<forall>operation operr. ZoneOperations_Get svc zone opname n = Inr operation
                   \<and> Error operation = Some operr
                 \<longrightarrow> r = Return ('''', '''', Some (Errorf ''operation failed: %v'' [S operr])))
           \<and> (\<forall>operation. ZoneOperations_Get svc zone opname n = Inr operation
                   \<and> Error operation = None
                 \<longrightarrow> r = (case Instances_Get svc zone name of
                            Inl err \<Rightarrow>
                              Return ('''', '''',
                                Some (Errorf ''failed to get instance info: %v'' [E err]))
                          | Inr instanceInfo \<Rightarrow>
                              (case first_NatIP instanceInfo of
                                 Panic \<Rightarrow> Panic
                               | Return ip \<Rightarrow> Return (name, ip, None))))"
proof -
  have "\<forall>j<m. \<exists>e. Instances_Insert svc zone name (0 + j) = Inl e \<and> retryable e"
    using assms(2) by (auto simp: retryable_iff)
  moreover have "0 + m \<le> maxRetries" using assms(1) by (simp add: maxRetries_def)
  ultimately obtain tr1 where tr1:
    "CreateInstance_loop svc name zone 0 [] = CreateInstance_loop svc name zone (0 + m) tr1"
    "submissions tr1 = submissions [] @ [0..<0 + m]"
    "sleeps tr1 = sleeps [] @ map (\<lambda>k. 2 ^ k) [0..<0 + m]" "polls tr1 = polls []"
    using CreateInstance_loop_retries [of m svc zone name 0 "[]"] by blast
  have lt: "m < maxRetries" using assms(1) by (simp add: maxRetries_def)
  from CreateInstance_loop_accepted [OF lt assms(3,4,5), where tr = tr1] tr1
  show ?thesis
    unfolding GCPProvider_CreateInstance_def
    by (simp del: upt_Suc add: upt_Suc_snoc; blast)
qed

lemma DeleteInstance_waits:
  assumes "m < 5"
    and "\<forall>k<m. \<exists>code msg. Instances_Delete svc zone instanceID k = Inl (GoogleapiError code msg) \<and> 500 \<le> code"
    and "Instances_Delete svc zone instanceID m = Inr opname"
    and "\<forall>j<n. \<exists>operation. ZoneOperations_Get svc zone opname j = Inr operation
            \<and> Status operation \<noteq> ''DONE''"
    and "(\<exists>e. ZoneOperations_Get svc zone opname n = Inl e)
         \<or> (\<exists>operation. ZoneOperations_Get svc zone opname n = Inr operation
               \<and> Status operation = ''DONE'')"
  shows "\<exists>r tr. GCPProvider_DeleteInstance svc zone instanceID = Some (r, tr)
           \<and> polls tr = Suc n \<and> submissions tr = [0..<Suc m]
           \<and> sleeps tr = map (\<lambda>k. 2 ^ k) [0..<m] @ replicate n 2
           \<and> (r = None \<longleftrightarrow> (\<exists>operation. ZoneOperations_Get svc zone opname n = Inr operation
                                 \<and> Error operation = None))
           \<and> (\<forall>e. ZoneOperations_Get svc zone opname n = Inl e
                 \<longrightarrow> r = Some (Errorf ''failed to check delete operation status: %v'' [E e]))
           \<and> (\<forall>operation operr. ZoneOperations_Get svc zone opname n = Inr operation
                   \<and> Error operation = Some operr
                 \<longrightarrow> r = Some (Errorf ''delete operation failed: %v'' [S operr]))"
proof -
  have "\<forall>j<m. \<exists>e. Instances_Delete svc zone instanceID (0 + j) = Inl e \<and> retryable e"
    using assms(2) by (auto simp: retryable_iff)
  moreover have "0 + m \<le> maxRetries" using assms(1) by (simp add: maxRetries_def)
  ultimately obtain tr1 where tr1:
    "GCPProvider_DeleteInstance svc zone instanceID = DeleteInstance_loop svc zone instanceID (0 + m) tr1"
    "submissions tr1 = [0..<0 + m]"
    "sleeps tr1 = map (\<lambda>k. 2 ^ k) [0..<0 + m]" "polls tr1 = 0"
    using DeleteInstance_loop_retries [of m svc zone instanceID 0
        "[Printf ''Attempting to delete instance %s in zone %s\<newline>'' [S instanceID, S zone]]"]
    by (auto simp: GCPProvider_DeleteInstance_def)
  have lt: "m < maxRetries" using assms(1) by (simp add: maxRetries_def)
  from DeleteInstance_loop_accepted [OF lt assms(3,4,5), where tr = tr1] tr1
  show ?thesis
    by (simp del: upt_Suc add: upt_Suc_snoc; blast)
qed

lemma DeleteDisk_waits:
  assumes "m < 5"
    and "\<forall>k<m. \<exists>code msg. Disks_Delete svc zone diskID k = Inl (GoogleapiError code msg) \<and> 500 \<le> code"
    and "Disks_Delete svc zone diskID m = Inr opname"
    and "\<forall>j<n. \<exists>operation. ZoneOperations_Get svc zone opname j = Inr operation
            \<and> Status operation \<noteq> ''DONE''"
    and "(\<exists>e. ZoneOperations_Get svc zone opname n = Inl e)
         \<or> (\<exists>operation. ZoneOperations_Get svc zone opname n = Inr operation
               \<and> Status operation = ''DONE'')"
  shows "\<exists>r tr. GCPProvider_DeleteDisk svc zone diskID = Some (r, tr)
           \<and> polls tr = Suc n \<and> submissions tr = [0..<Suc m]
           \<and> sleeps tr = map (\<lambda>k. 2 ^ k) [0..<m] @ replicate n 2
           \<and> (r = None \<longleftrightarrow> (\<exists>operation. ZoneOperations_Get svc zone opname n = Inr operation
                                 \<and> Error operation = None))
           \<and> (\<forall>e. ZoneOperations_Get svc zone opname n = Inl e
                 \<longrightarrow> r = Some (Errorf ''failed to check disk delete operation status: %v'' [E e]))
           \<and> (\<forall>operation operr. ZoneOperations_Get svc zone opname n = Inr operation
                   \<and> Error operation = Some operr
                 \<longrightarrow> r = Some (Errorf ''disk delete operation failed: %v'' [S operr]))"
proof -
  have "\<forall>j<m. \<exists>e. Disks_Delete svc zone diskID (0 + j) = Inl e \<and> retryable e"
    using assms(2) by (auto simp: retryable_iff)
  moreover have "0 + m \<le> maxRetries" using assms(1) by (simp add: maxRetries_def)
  ultimately obtain tr1 where tr1:
    "GCPProvider_DeleteDisk svc zone diskID = DeleteDisk_loop svc zone diskID (0 + m) tr1"
    "submissions tr1 = [0..<0 + m]"
    "sleeps tr1 = map (\<lambda>k. 2 ^ k) [0..<0 + m]" "polls tr1 = 0"
    using DeleteDisk_loop_retries [of m svc zone diskID 0
        "[Printf ''attempting to delete disk %s in zone %s\<newline>'' [S diskID, S zone]]"]
    by (auto simp: GCPProvider_DeleteDisk_def)
  have lt: "m < maxRetries" using assms(1) by (simp add: maxRetries_def)
  from DeleteDisk_loop_accepted [OF lt assms(3,4,5), where tr = tr1] tr1
  show ?thesis
    by (simp del: upt_Suc add: upt_Suc_snoc; blast)
qed

lemma CreateInstance_pending_forever:
  assumes "m < 5"
    and "\<forall>k<m. \<exists>code msg. Instances_Insert svc zone name k = Inl (GoogleapiError code msg) \<and> 500 \<le> code"
    and "Instances_Insert svc zone name m = Inr opname"
    and "\<forall>j. \<exists>operation. ZoneOperations_Get svc zone opname j = Inr operation
            \<and> Status operation \<noteq> ''DONE''"
  shows "GCPProvider_CreateInstance svc name zone machineType = None"
proof -
  have "\<forall>j<m. \<exists>e. Instances_Insert svc zone name (0 + j) = Inl e \<and> retryable e"
    using assms(2) by (auto simp: retryable_iff)
  moreover have "0 + m \<le> maxRetries" using assms(1) by (simp add: maxRetries_def)
  ultimately obtain tr1 where tr1:
    "CreateInstance_loop svc name zone 0 [] = CreateInstance_loop svc name zone (0 + m) tr1"
    using CreateInstance_loop_retries [of m svc zone name 0 "[]"] by blast
  have lt: "m < maxRetries" using assms(1) by (simp add: maxRetries_def)
  have "CreateInstance_loop svc name zone m tr1 = None"
    using lt assms(3) wait_operation_pending_forever [OF assms(4)]
    by (subst CreateInstance_loop.simps) simp
  with tr1 show ?thesis by (simp add: GCPProvider_CreateInstance_def)
qed

lemma DeleteInstance_pending_forever:
  assumes "m < 5"
    and "\<forall>k<m. \<exists>code msg. Instances_Delete svc zone instanceID k = Inl (GoogleapiError code msg) \<and> 500 \<le> code"
    and "Instances_Delete svc zone instanceID m = Inr opname"
    and "\<forall>j. \<exists>operation. ZoneOperations_Get svc zone opname j = Inr operation
            \<and> Status operation \<noteq> ''DONE''"
  shows "GCPProvider_DeleteInstance svc zone instanceID = None"
proof -
  have "\<forall>j<m. \<exists>e. Instances_Delete svc zone instanceID (0 + j) = Inl e \<and> retryable e"
    using assms(2) by (auto simp: retryable_iff)
  moreover have "0 + m \<le> maxRetries" using assms(1) by (simp add: maxRetries_def)
  ultimately obtain tr1 where tr1:
    "GCPProvider_DeleteInstance svc zone instanceID = DeleteInstance_loop svc zone instanceID (0 + m) tr1"
    using DeleteInstance_loop_retries [of m svc zone instanceID 0
        "[Printf ''Attempting to delete instance %s in zone %s\<newline>'' [S instanceID, S zone]]"]
    by (auto simp: GCPProvider_DeleteInstance_def)
  have lt: "m < maxRetries" using assms(1) by (simp add: maxRetries_def)
  have "DeleteInstance_loop svc zone instanceID m tr1 = None"
    using lt assms(3) wait_operation_pending_forever [OF assms(4)]
    by (subst DeleteInstance_loop.simps) simp
  with tr1 show ?thesis by simp
qed

lemma DeleteDisk_pending_forever:
  assumes "m < 5"
    and "\<forall>k<m. \<exists>code msg. Disks_Delete svc zone diskID k = Inl (GoogleapiError code msg) \<and> 500 \<le> code"
    and "Disks_Delete svc zone diskID m = Inr opname"
    and "\<forall>j. \<exists>operation. ZoneOperations_Get svc zone opname j = Inr operation
            \<and> Status operation \<noteq> ''DONE''"
  shows "GCPProvider_DeleteDisk svc zone diskID = None"
proof -
  have "\<forall>j<m. \<exists>e. Disks_Delete svc zone diskID (0 + j) = Inl e \<and> retryable e"
    using assms(2) by (auto simp: retryable_iff)
  moreover have "0 + m \<le> maxRetries" using assms(1) by (simp add: maxRetries_def)
  ultimately obtain tr1 where tr1:
    "GCPProvider_DeleteDisk svc zone diskID = DeleteDisk_loop svc zone diskID (0 + m) tr1"
    using DeleteDisk_loop_retries [of m svc zone diskID 0
        "[Printf ''attempting to delete disk %s in zone %s\<newline>'' [S diskID, S zone]]"]
    by (auto simp: GCPProvider_DeleteDisk_def)
  have lt: "m < maxRetries" using assms(1) by (simp add: maxRetries_def)
  have "DeleteDisk_loop svc zone diskID m tr1 = None"
    using lt assms(3) wait_operation_pending_forever [OF assms(4)]
    by (subst DeleteDisk_loop.simps) simp
  with tr1 show ?thesis by simp
qed

text \<open>
  Claim C4. In CreateInstance, DeleteInstance and DeleteDisk, let the submission be
  accepted at attempt \<open>m\<close> (after \<open>m < 5\<close> retried submissions), let polls \<open>0 .. n-1\<close> of
  the started operation return a status other than \<^verbatim>\<open>DONE\<close>, and let poll \<open>n\<close> be the
  first to either fail or return \<^verbatim>\<open>DONE\<close>. Then the provider call returns after
  exactly \<open>n + 1\<close> polls and \<open>n\<close> sleeps of two seconds, so never before the terminal
  status and with no poll after it, and it submits nothing after the accepted
  submission. A failed status fetch and a \<^verbatim>\<open>DONE\<close> status with an operation error are
  returned to the caller as the "failed to check ... status" and "... operation failed"
  errors. DeleteInstance and DeleteDisk return nil exactly when the terminal status has
  no operation error; CreateInstance then goes on to fetch the instance and returns what
  that fetch gives.
\<close>

theorem provider_call_returns_at_first_terminal_poll:
  "(m < 5
      \<and> (\<forall>k<m. \<exists>code msg. Instances_Insert svc zone name k = Inl (GoogleapiError code msg) \<and> 500 \<le> code)
      \<and> Instances_Insert svc zone name m = Inr opname
      \<and> (\<forall>j<n. \<exists>operation. ZoneOperations_Get svc zone opname j = Inr operation
              \<and> Status operation \<noteq> ''DONE'')
      \<and> ((\<exists>e. ZoneOperations_Get svc zone opname n = Inl e)
           \<or> (\<exists>operation. ZoneOperations_Get svc zone opname n = Inr operation
                 \<and> Status operation = ''DONE''))
    \<longrightarrow> (\<exists>r tr. GCPProvider_CreateInstance svc name zone machineType = Some (r, tr)
           \<and> polls tr = Suc n \<and> submissions tr = [0..<Suc m]
           \<and> sleeps tr = map (\<lambda>k. 2 ^ k) [0..<m] @ replicate n 2
           \<and> (\<forall>e. ZoneOperations_Get svc zone opname n = Inl e
                 \<longrightarrow> r = Return ('''', '''',
                           Some (Errorf ''failed to check operation status: %v'' [E e])))
           \<and> (\<forall>operation operr. ZoneOperations_Get svc zone opname n = Inr operation
                   \<and> Error operation = Some operr
                 \<longrightarrow> r = Return ('''', '''', Some (Errorf ''operation failed: %v'' [S operr])))
           \<and> (\<forall>operation. ZoneOperations_Get svc zone opname n = Inr operation
                   \<and> Error operation = None
                 \<longrightarrow> r = (case Instances_Get svc zone name of
                            Inl err \<Rightarrow>
                              Return ('''', '''',
                                Some (Errorf ''failed to get instance info: %v'' [E err]))
                          | Inr instanceInfo \<Rightarrow>
                              (case first_NatIP instanceInfo of
                                 Panic \<Rightarrow> Panic
                               | Return ip \<Rightarrow> Return (name, ip, None))))))
   \<and> (m < 5
      \<and> (\<forall>k<m. \<exists>code msg. Instances_Delete svc zone instanceID k = Inl (GoogleapiError code msg) \<and> 500 \<le> code)
      \<and> Instances_Delete svc zone instanceID m = Inr opname
      \<and> (\<forall>j<n. \<exists>operation. ZoneOperations_Get svc zone opname j = Inr operation
              \<and> Status operation \<noteq> ''DONE'')
      \<and> ((\<exists>e. ZoneOperations_Get svc zone opname n = Inl e)
           \<or> (\<exists>operation. ZoneOperations_Get svc zone opname n = Inr operation
                 \<and> Status operation = ''DONE''))
    \<longrightarrow> (\<exists>r tr. GCPProvider_DeleteInstance svc zone instanceID = Some (r, tr)
           \<and> polls tr = Suc n \<and> submissions tr = [0..<Suc m]
           \<and> sleeps tr = map (\<lambda>k. 2 ^ k) [0..<m] @ replicate n 2
           \<and> (r = None \<longleftrightarrow> (\<exists>operation. ZoneOperations_Get svc zone opname n = Inr operation
                                 \<and> Error operation = None))
           \<and> (\<forall>e. ZoneOperations_Get svc zone opname n = Inl e
                 \<longrightarrow> r = Some (Errorf ''failed to check delete operation status: %v'' [E e]))
           \<and> (\<forall>operation operr. ZoneOperations_Get svc zone opname n = Inr operation
                   \<and> Error operation = Some operr
                 \<longrightarrow> r = Some (Errorf ''delete operation failed: %v'' [S operr]))))
   \<and> (m < 5
      \<and> (\<forall>k<m. \<exists>code msg. Disks_Delete svc zone diskID k = Inl (GoogleapiError code msg) \<and> 500 \<le> code)
      \<and> Disks_Delete svc zone diskID m = Inr opname
      \<and> (\<forall>j<n. \<exists>operation. ZoneOperations_Get svc zone opname j = Inr operation
              \<and> Status operation \<noteq> ''DONE'')
      \<and> ((\<exists>e. ZoneOperations_Get svc zone opname n = Inl e)
           \<or> (\<exists>operation. ZoneOperations_Get svc zone opname n = Inr operation
                 \<and> Status operation = ''DONE''))
    \<longrightarrow> (\<exists>r tr. GCPProvider_DeleteDisk svc zone diskID = Some (r, tr)
           \<and> polls tr = Suc n \<and> submissions tr = [0..<Suc m]
           \<and> sleeps tr = map (\<lambda>k. 2 ^ k) [0..<m] @ replicate n 2
           \<and> (r = None \<longleftrightarrow> (\<exists>operation. ZoneOperations_Get svc zone opname n = Inr operation
                                 \<and> Error operation = None))
           \<and> (\<forall>e. ZoneOperations_Get svc zone opname n = Inl e
                 \<longrightarrow> r = Some (Errorf ''failed to check disk delete operation status: %v'' [E e]))
           \<and> (\<forall>operation operr. ZoneOperations_Get svc zone opname n = Inr operation
                   \<and> Error operation = Some operr
                 \<longrightarrow> r = Some (Errorf ''disk delete operation failed: %v'' [S operr]))))"
proof (intro conjI impI)
  assume "m < 5
      \<and> (\<forall>k<m. \<exists>code msg. Instances_Insert svc zone name k = Inl (GoogleapiError code msg) \<and> 500 \<le> code)
      \<and> Instances_Insert svc zone name m = Inr opname
      \<and> (\<forall>j<n. \<exists>operation. ZoneOperations_Get svc zone opname j = Inr operation
              \<and> Status operation \<noteq> ''DONE'')
      \<and> ((\<exists>e. ZoneOperations_Get svc zone opname n = Inl e)
           \<or> (\<exists>operation. ZoneOperations_Get svc zone opname n = Inr operation
                 \<and> Status operation = ''DONE''))"
  then show "\<exists>r tr. GCPProvider_CreateInstance svc name zone machineType = Some (r, tr)
           \<and> polls tr = Suc n \<and> submissions tr = [0..<Suc m]
           \<and> sleeps tr = map (\<lambda>k. 2 ^ k) [0..<m] @ replicate n 2
           \<and> (\<forall>e. ZoneOperations_Get svc zone opname n = Inl e
                 \<longrightarrow> r = Return ('''', '''',
                           Some (Errorf ''failed to check operation status: %v'' [E e])))
           \<and> (\<forall>operation operr. ZoneOperations_Get svc zone opname n = Inr operation
                   \<and> Error operation = Some operr
                 \<longrightarrow> r = Return ('''', '''', Some (Errorf ''operation failed: %v'' [S operr])))
           \<and> (\<forall>operation. ZoneOperations_Get svc zone opname n = Inr operation
                   \<and> Error operation = None
                 \<longrightarrow> r = (case Instances_Get svc zone name of
                            Inl err \<Rightarrow>
                              Return ('''', '''',
                                Some (Errorf ''failed to get instance info: %v'' [E err]))
                          | Inr instanceInfo \<Rightarrow>
                              (case first_NatIP instanceInfo of
                                 Panic \<Rightarrow> Panic
                               | Return ip \<Rightarrow> Return (name, ip, None))))"
    using CreateInstance_waits [of m svc zone name opname n machineType] by blast
next
  assume "m < 5
      \<and> (\<forall>k<m. \<exists>code msg. Instances_Delete svc zone instanceID k = Inl (GoogleapiError code msg) \<and> 500 \<le> code)
      \<and> Instances_Delete svc zone instanceID m = Inr opname
      \<and> (\<forall>j<n. \<exists>operation. ZoneOperations_Get svc zone opname j = Inr operation
              \<and> Status operation \<noteq> ''DONE'')
      \<and> ((\<exists>e. ZoneOperations_Get svc zone opname n = Inl e)
           \<or> (\<exists>operation. ZoneOperations_Get svc zone opname n = Inr operation
                 \<and> Status operation = ''DONE''))"
  then show "\<exists>r tr. GCPProvider_DeleteInstance svc zone instanceID = Some (r, tr)
           \<and> polls tr = Suc n \<and> submissions tr = [0..<Suc m]
           \<and> sleeps tr = map (\<lambda>k. 2 ^ k) [0..<m] @ replicate n 2
           \<and> (r = None \<longleftrightarrow> (\<exists>operation. ZoneOperations_Get svc zone opname n = Inr operation
                                 \<and> Error operation = None))
           \<and> (\<forall>e. ZoneOperations_Get svc zone opname n = Inl e
                 \<longrightarrow> r = Some (Errorf ''failed to check delete operation status: %v'' [E e]))
           \<and> (\<forall>operation operr. ZoneOperations_Get svc zone opname n = Inr operation
                   \<and> Error operation = Some operr
                 \<longrightarrow> r = Some (Errorf ''delete operation failed: %v'' [S operr]))"
    using DeleteInstance_waits [of m svc zone instanceID opname n] by blast
next
  assume "m < 5
      \<and> (\<forall>k<m. \<exists>code msg. Disks_Delete svc zone diskID k = Inl (GoogleapiError code msg) \<and> 500 \<le> code)
      \<and> Disks_Delete svc zone diskID m = Inr opname
      \<and> (\<forall>j<n. \<exists>operation. ZoneOperations_Get svc zone opname j = Inr operation
              \<and> Status operation \<noteq> ''DONE'')
      \<and> ((\<exists>e. ZoneOperations_Get svc zone opname n = Inl e)
           \<or> (\<exists>operation. ZoneOperations_Get svc zone opname n = Inr operation
                 \<and> Status operation = ''DONE''))"
  then show "\<exists>r tr. GCPProvider_DeleteDisk svc zone diskID = Some (r, tr)
           \<and> polls tr = Suc n \<and> submissions tr = [0..<Suc m]
           \<and> sleeps tr = map (\<lambda>k. 2 ^ k) [0..<m] @ replicate n 2
           \<and> (r = None \<longleftrightarrow> (\<exists>operation. ZoneOperations_Get svc zone opname n = Inr operation
                                 \<and> Error operation = None))
           \<and> (\<forall>e. ZoneOperations_Get svc zone opname n = Inl e
                 \<longrightarrow> r = Some (Errorf ''failed to check disk delete operation status: %v'' [E e]))
           \<and> (\<forall>operation operr. ZoneOperations_Get svc zone opname n = Inr operation
                   \<and> Error operation = Some operr
                 \<longrightarrow> r = Some (Errorf ''disk delete operation failed: %v'' [S operr]))"
    using DeleteDisk_waits [of m svc zone diskID opname n] by blast
qed

theorem provider_call_returns_at_first_terminal_poll_witness:
  "(\<exists>tr. GCPProvider_CreateInstance slow_service ''p1'' ''z1'' ''m1''
            = Some (Return (''p1'', ''34.1.2.3'', None), tr)
          \<and> polls tr = 4 \<and> submissions tr = [0] \<and> sleeps tr = [2, 2, 2])
   \<and> (\<exists>tr. GCPProvider_DeleteInstance slow_service ''z1'' ''p1'' = Some (None, tr)
          \<and> polls tr = 4 \<and> submissions tr = [0] \<and> sleeps tr = [2, 2, 2])
   \<and> (\<exists>tr. GCPProvider_DeleteDisk slow_service ''z1'' ''d1'' = Some (None, tr)
          \<and> polls tr = 4 \<and> submissions tr = [0] \<and> sleeps tr = [2, 2, 2])"
  using provider_call_returns_at_first_terminal_poll
    [of 0 slow_service "''z1''" "''p1''" "''op-insert''" 3 "''m1''" "''p1''" "''d1''"]
    provider_call_returns_at_first_terminal_poll
    [of 0 slow_service "''z1''" "''p1''" "''op-delete''" 3 "''m1''" "''p1''" "''d1''"]
    provider_call_returns_at_first_terminal_poll
    [of 0 slow_service "''z1''" "''p1''" "''op-disk''" 3 "''m1''" "''p1''" "''d1''"]
  by (simp add: slow_service_def pending_then_def numeral_3_eq_3 nat_interface_def
      first_NatIP_def eval_nat_numeral)

section \<open>GetInstanceInfo and the record store\<close>

lemma Split_from_nonempty: "Split_from cur sep s \<noteq> []"
  by (induction s arbitrary: cur) auto

lemma takeWhile_rev_all:
  "sep \<notin> set xs \<Longrightarrow> takeWhile (\<lambda>c. c \<noteq> sep) (rev xs @ ys) = rev xs @ takeWhile (\<lambda>c. c \<noteq> sep) ys"
  by (rule takeWhile_append2) auto

lemma last_Split_from:
  "last (Split_from cur sep s) =
     (if sep \<in> set s then rev (takeWhile (\<lambda>c. c \<noteq> sep) (rev s)) else rev cur @ s)"
proof (induction s arbitrary: cur)
  case Nil
  show ?case by simp
next
  case (Cons c cs)
  show ?case
  proof (cases "c = sep")
    case True
    have "last (Split_from cur sep (c # cs)) = last (Split_from [] sep cs)"
      using True Split_from_nonempty [of "[]" sep cs] by simp
    also have "\<dots> = (if sep \<in> set cs then rev (takeWhile (\<lambda>c. c \<noteq> sep) (rev cs)) else cs)"
      using Cons.IH [of "[]"] by simp
    also have "\<dots> = rev (takeWhile (\<lambda>c. c \<noteq> sep) (rev (c # cs)))"
      using True by (auto simp: takeWhile_rev_all)
    finally show ?thesis using True by simp
  next
    case False
    have "last (Split_from cur sep (c # cs)) = last (Split_from (c # cur) sep cs)"
      using False by simp
    also have "\<dots> = (if sep \<in> set cs then rev (takeWhile (\<lambda>c. c \<noteq> sep) (rev cs))
                       else rev (c # cur) @ cs)"
      using Cons.IH [of "c # cur"] by simp
    finally show ?thesis
      using False by (auto simp: takeWhile_append1)
  qed
qed

lemma last_Split: "last (Split s CHR ''/'') = last_segment s"
proof (cases "CHR ''/'' \<in> set s")
  case True
  then show ?thesis by (simp add: Split_def last_segment_def last_Split_from)
next
  case False
  then have tw: "takeWhile (\<lambda>c. c \<noteq> CHR ''/'') (rev s) = rev s"
    using takeWhile_rev_all [of "CHR ''/''" s "[]"] by simp
  have "last_segment s = s" by (simp only: last_segment_def tw rev_rev_ident)
  moreover have "last (Split s CHR ''/'') = s"
    using False by (simp add: Split_def last_Split_from)
  ultimately show ?thesis by simp
qed

lemma boot_DiskID_find:
  "boot_DiskID disks d =
     (case find Boot disks of None \<Rightarrow> d | Some disk \<Rightarrow> last_segment (Source disk))"
  by (induction disks) (simp_all add: last_Split)

lemma GetInstanceInfo_cases:
  "GCPProvider_GetInstanceInfo svc zone instanceID =
     (case Instances_Get svc zone instanceID of
        Inl err \<Rightarrow>
          Return (InstanceInfo_zero, Some (Errorf ''failed to get instance info: %v'' [E err]))
      | Inr instance \<Rightarrow>
          (case first_NatIP instance of
             Panic \<Rightarrow> Panic
           | Return ip \<Rightarrow>
               (case find Boot (Disks instance) of
                  None \<Rightarrow> Return (InstanceInfo_zero,
                            Some (Errorf ''no boot disk found for instance %s'' [S instanceID]))
                | Some disk \<Rightarrow>
                    if last_segment (Source disk) = ''''
                    then Return (InstanceInfo_zero,
                           Some (Errorf ''no boot disk found for instance %s'' [S instanceID]))
                    else Return (\<lparr>InstanceInfo.IP = ip, DiskID = last_segment (Source disk)\<rparr>, None))))"
  by (simp add: GCPProvider_GetInstanceInfo_def boot_DiskID_find Let_def
      split: sum.splits go.splits option.splits)

text \<open>
  Claim C10, as amended. GetInstanceInfo never returns success with an empty
  \<open>DiskID\<close>, and every error it returns comes with the zero-valued snapshot. When the
  fetched description has a first network interface with a first access config and no
  boot disk, it returns the "no boot disk found" error. On success \<open>DiskID\<close> is the last
  path segment of the source of the first boot disk.
\<close>

theorem GetInstanceInfo_boot_disk:
  "(\<forall>info. GCPProvider_GetInstanceInfo svc zone instanceID = Return (info, None)
        \<longrightarrow> DiskID info \<noteq> '''')
   \<and> (\<forall>info e. GCPProvider_GetInstanceInfo svc zone instanceID = Return (info, Some e)
        \<longrightarrow> info = InstanceInfo_zero)
   \<and> (\<forall>instance ip. Instances_Get svc zone instanceID = Inr instance
          \<and> first_NatIP instance = Return ip \<and> find Boot (Disks instance) = None
        \<longrightarrow> GCPProvider_GetInstanceInfo svc zone instanceID =
              Return (InstanceInfo_zero,
                Some (Errorf ''no boot disk found for instance %s'' [S instanceID])))
   \<and> (\<forall>info. GCPProvider_GetInstanceInfo svc zone instanceID = Return (info, None)
        \<longrightarrow> (\<exists>instance disk. Instances_Get svc zone instanceID = Inr instance
               \<and> find Boot (Disks instance) = Some disk
               \<and> DiskID info = last_segment (Source disk)))"
  by (auto simp: GetInstanceInfo_cases split: sum.splits go.splits option.splits if_splits)

theorem GetInstanceInfo_boot_disk_witness:
  "GCPProvider_GetInstanceInfo
     (service_with \<lparr>NetworkInterfaces = [nat_interface ''34.1.2.3''],
                    Disks = [\<lparr>Boot = False, Source = ''zones/z1/disks/data''\<rparr>,
                             \<lparr>Boot = True, Source = ''zones/z1/disks/p1''\<rparr>]\<rparr>) ''z1'' ''p1''
     = Return (\<lparr>InstanceInfo.IP = ''34.1.2.3'', DiskID = ''p1''\<rparr>, None)
   \<and> GCPProvider_GetInstanceInfo
       (service_with \<lparr>NetworkInterfaces = [nat_interface ''34.1.2.3''],
                      Disks = [\<lparr>Boot = False, Source = ''zones/z1/disks/data''\<rparr>]\<rparr>) ''z1'' ''p1''
     = Return (InstanceInfo_zero, Some (Errorf ''no boot disk found for instance %s'' [S ''p1'']))"
  using GetInstanceInfo_boot_disk
    [of "service_with \<lparr>NetworkInterfaces = [nat_interface ''34.1.2.3''],
                       Disks = [\<lparr>Boot = False, Source = ''zones/z1/disks/data''\<rparr>]\<rparr>" "''z1''" "''p1''"]
  by (simp add: GCPProvider_GetInstanceInfo_def service_with_def nat_interface_def first_NatIP_def
      Split_def InstanceInfo_zero_def)

text \<open>
  Claim C10 as stated fails for a description without network interface and without
  disk: reading \<^verbatim>\<open>NetworkInterfaces[0]\<close> panics before the disks are looked at, so no
  error is returned.
\<close>

theorem GetInstanceInfo_without_boot_disk_counterexample:
  "Instances_Get (service_with \<lparr>NetworkInterfaces = [], Disks = []\<rparr>) ''z1'' ''p1''
     = Inr \<lparr>NetworkInterfaces = [], Disks = []\<rparr>
   \<and> GCPProvider_GetInstanceInfo (service_with \<lparr>NetworkInterfaces = [], Disks = []\<rparr>) ''z1'' ''p1''
     = Panic"
  by (simp add: GCPProvider_GetInstanceInfo_def service_with_def first_NatIP_def)

text \<open>
  Claim C9. When the backing file does not exist, Load returns the empty collection and
  no error; it only reads.
\<close>

theorem Load_missing_file:
  "files w (filePath r) = NotExist \<Longrightarrow> Load r w = (([], None), emit (ReadFile (filePath r)) w)"
  by (simp add: Load_def)

theorem Load_missing_file_witness:
  "Load \<lparr>filePath = ''proxy_records.json''\<rparr> empty_world
     = (([], None), empty_world\<lparr>trace := [ReadFile ''proxy_records.json'']\<rparr>)"
  using Load_missing_file [of empty_world "\<lparr>filePath = ''proxy_records.json''\<rparr>"]
  by (simp add: empty_world_def emit_def)

section \<open>Commander\<close>

lemma emit_simps [simp]:
  "trace (emit ev w) = trace w @ [ev]"
  "files (emit ev w) = files w"
  "write_error (emit ev w) = write_error w"
  by (simp_all add: emit_def)

lemma calls_append [simp]: "calls (a @ b) = calls a @ calls b"
  by (simp add: calls_def)

lemma saves_append [simp]: "saves (a @ b) = saves a @ saves b"
  by (simp add: saves_def)

lemma file_accesses_append [simp]: "file_accesses (a @ b) = file_accesses a + file_accesses b"
  by (simp add: file_accesses_def)

lemma calls_simps [simp]:
  "calls [] = []"
  "calls (Asked m opts # tr) = calls tr"
  "calls (Called cl # tr) = cl # calls tr"
  "calls (ReadFile p # tr) = calls tr"
  "calls (WriteFile p rs # tr) = calls tr"
  "calls (Print f as # tr) = calls tr"
  "calls (Log f as # tr) = calls tr"
  by (simp_all add: calls_def)

lemma saves_simps [simp]:
  "saves [] = []"
  "saves (Asked m opts # tr) = saves tr"
  "saves (Called cl # tr) = saves tr"
  "saves (ReadFile p # tr) = saves tr"
  "saves (WriteFile p rs # tr) = rs # saves tr"
  "saves (Print f as # tr) = saves tr"
  "saves (Log f as # tr) = saves tr"
  by (simp_all add: saves_def)

lemma file_accesses_simps [simp]:
  "file_accesses [] = 0"
  "file_accesses (Asked m opts # tr) = file_accesses tr"
  "file_accesses (Called cl # tr) = file_accesses tr"
  "file_accesses (ReadFile p # tr) = Suc (file_accesses tr)"
  "file_accesses (WriteFile p rs # tr) = Suc (file_accesses tr)"
  "file_accesses (Print f as # tr) = file_accesses tr"
  "file_accesses (Log f as # tr) = file_accesses tr"
  by (simp_all add: file_accesses_def)

lemma Load_world:
  "Load r w = (res, w1) \<Longrightarrow> w1 = emit (ReadFile (filePath r)) w"
  by (auto simp: Load_def Let_def split: file_state.splits)

lemma findInstance_None: "findInstance name rs = None \<longleftrightarrow> instance_records name rs = []"
  by (induction rs) (auto simp: instance_records_def)


lemma elems_slice_of [simp]: "elems (slice_of xs) = xs"
  by (simp add: elems_def slice_of_def)

lemma array_slice_of [simp]: "array (slice_of xs) = xs"
  by (simp add: slice_of_def)

lemma elems_remove_at:
  "i < length xs \<Longrightarrow> elems (remove_at i (slice_of xs)) = take i xs @ drop (Suc i) xs"
  by (simp add: elems_def remove_at_def slice_of_def)


lemma elems_whole: "elems \<lparr>array = ys, len = length ys\<rparr> = ys"
  by (simp add: elems_def)

lemma elems_append_one_remove_at:
  assumes "i < length xs"
  shows "elems (append_one (remove_at i (slice_of xs)) x) = take i xs @ drop (Suc i) xs @ [x]"
proof -
  let ?P = "take i xs @ drop (Suc i) xs"
  have d: "drop (length xs - Suc 0) xs = [last xs]"
    using assms by (cases xs rule: rev_cases) auto
  have l: "length ?P = length xs - Suc 0"
    using assms by auto
  have a: "array (remove_at i (slice_of xs)) = ?P @ [last xs]"
    using assms by (simp add: remove_at_def slice_of_def d)
  have n: "len (remove_at i (slice_of xs)) = length ?P"
    using assms by (simp add: remove_at_def slice_of_def)
  have "append_one (remove_at i (slice_of xs)) x =
          \<lparr>array = (?P @ [last xs])[length ?P := x], len = Suc (length ?P)\<rparr>"
    unfolding append_one_def a n by simp
  also have "(?P @ [last xs])[length ?P := x] = ?P @ [x]"
    by (rule list_update_length)
  finally have "append_one (remove_at i (slice_of xs)) x =
      \<lparr>array = ?P @ [x], len = length (?P @ [x])\<rparr>"
    by simp
  then have "elems (append_one (remove_at i (slice_of xs)) x) = ?P @ [x]"
    by (simp only: elems_whole)
  then show ?thesis by simp
qed

text \<open>
  Claim C6. When the collection loads and holds no instance-kind record of the name,
  Delete prints "Proxy not found", returns nil, and does nothing else: the only events
  are the read of the file and the print, so no provider method is called and nothing
  is saved.
\<close>

theorem Delete_not_found:
  assumes "Load (recordManager c) w = ((loaded, None), w1)"
    and "instance_records name loaded = []"
  shows "Delete c name w =
           (None, w\<lparr>trace := trace w @ [ReadFile (filePath (recordManager c)),
                                        Print ''Proxy not found: %s\<newline>'' [S name]]\<rparr>)
         \<and> calls (trace (snd (Delete c name w))) = calls (trace w)
         \<and> saves (trace (snd (Delete c name w))) = saves (trace w)
         \<and> files (snd (Delete c name w)) = files w"
proof -
  have w1: "w1 = emit (ReadFile (filePath (recordManager c))) w"
    using assms(1) by (rule Load_world)
  have "findInstance name loaded = None"
    using assms(2) by (simp add: findInstance_None)
  then have "Delete c name w = (None, emit (Print ''Proxy not found: %s\<newline>'' [S name]) w1)"
    using assms(1) by (simp add: Delete_def)
  then show ?thesis
    by (simp add: w1 emit_def)
qed

text \<open>
  Claim C7, as amended. When the instance-kind record exists and DeleteInstance returns
  an error, Delete stops there: nothing is saved, the file is untouched and DeleteDisk
  is not called. It logs "Error deleting instance", prints "Failed to delete instance"
  and returns nil to its caller.
\<close>

theorem Delete_instance_deletion_fails:
  assumes "Load (recordManager c) w = ((loaded, None), w1)"
    and "findInstance name loaded = Some i"
    and "DeleteInstance (provider c) (Zone (loaded ! i)) (InstanceID (loaded ! i)) = Some e"
  shows "\<exists>w' tr. Delete c name w = (None, w')
           \<and> files w' = files w
           \<and> saves (trace w') = saves (trace w)
           \<and> calls (trace w') = calls (trace w) @
                [GetInstanceInfo_call (Zone (loaded ! i)) (InstanceID (loaded ! i)),
                 DeleteInstance_call (Zone (loaded ! i)) (InstanceID (loaded ! i))]
           \<and> trace w' = tr @
                [Log ''Error deleting instance %s: %v'' [S (InstanceID (loaded ! i)), E e],
                 Print ''Failed to delete instance %s\<newline>'' [S (InstanceID (loaded ! i))]]"
proof -
  have w1: "w1 = emit (ReadFile (filePath (recordManager c))) w"
    using assms(1) by (rule Load_world)
  obtain info err where info:
    "GetInstanceInfo (provider c) (Zone (loaded ! i)) (InstanceID (loaded ! i)) = (info, err)"
    by (cases "GetInstanceInfo (provider c) (Zone (loaded ! i)) (InstanceID (loaded ! i))")
  show ?thesis
    using assms info
    by (cases err) (simp_all add: Delete_def Let_def w1)
qed





lemma Create_deploy_fails_run:
  assumes "ListRegions (provider c) = (regions, None)"
    and "ToUpper (selectedPlatform ans) = ''GCP''"
    and "ListZones (provider c) (reverseMap gcp_locations (selectedLocation ans)) = (zones, None)"
    and "ListMachineTypes (provider c) (selectedZone ans) = (machineTypes, None)"
    and "CreateInstance (provider c)
           (''proxy-'' @ filter (\<lambda>ch. ch \<noteq> CHR ''-'') (selectedZone ans)) (selectedZone ans)
           (if HasSuffix (selectedType ans) '' (recommended)''
            then RecommendedType (provider c) else selectedType ans) = (instanceID, ip, None)"
    and "Deploy (deployer c) ip = Some e"
  shows "fst (Create c gcp_locations ans w) = Some (Errorf ''error deploying proxy: %v'' [E e])
         \<and> files (snd (Create c gcp_locations ans w)) = files w
         \<and> file_accesses (trace (snd (Create c gcp_locations ans w))) = file_accesses (trace w)
         \<and> saves (trace (snd (Create c gcp_locations ans w))) = saves (trace w)"
  using assms by (simp add: Create_def Let_def)

lemma Create_deploy_called:
  assumes "Called (Deploy_call ip) \<in> set (drop (length (trace w)) (trace (snd (Create c gcp_locations ans w))))"
  shows "\<exists>regions zones machineTypes instanceID.
           ListRegions (provider c) = (regions, None)
         \<and> ToUpper (selectedPlatform ans) = ''GCP''
         \<and> ListZones (provider c) (reverseMap gcp_locations (selectedLocation ans)) = (zones, None)
         \<and> ListMachineTypes (provider c) (selectedZone ans) = (machineTypes, None)
         \<and> CreateInstance (provider c)
              (''proxy-'' @ filter (\<lambda>ch. ch \<noteq> CHR ''-'') (selectedZone ans)) (selectedZone ans)
              (if HasSuffix (selectedType ans) '' (recommended)''
               then RecommendedType (provider c) else selectedType ans) = (instanceID, ip, None)"
proof -
  obtain regions e1 where lr: "ListRegions (provider c) = (regions, e1)"
    by (cases "ListRegions (provider c)")
  obtain zones e2 where lz:
    "ListZones (provider c) (reverseMap gcp_locations (selectedLocation ans)) = (zones, e2)"
    by (cases "ListZones (provider c) (reverseMap gcp_locations (selectedLocation ans))")
  obtain machineTypes e3 where lm:
    "ListMachineTypes (provider c) (selectedZone ans) = (machineTypes, e3)"
    by (cases "ListMachineTypes (provider c) (selectedZone ans)")
  obtain instanceID ip0 e4 where ci:
    "CreateInstance (provider c)
       (''proxy-'' @ filter (\<lambda>ch. ch \<noteq> CHR ''-'') (selectedZone ans)) (selectedZone ans)
       (if HasSuffix (selectedType ans) '' (recommended)''
        then RecommendedType (provider c) else selectedType ans) = (instanceID, ip0, e4)"
    by (metis prod_cases3)
  have e1: "e1 = None"
  proof (rule ccontr)
    assume "e1 \<noteq> None"
    then obtain err where "e1 = Some err" by auto
    with assms lr show False by (simp add: Create_def Let_def)
  qed
  have pf: "ToUpper (selectedPlatform ans) = ''GCP''"
  proof (rule ccontr)
    assume "ToUpper (selectedPlatform ans) \<noteq> ''GCP''"
    with assms lr e1 show False by (simp add: Create_def Let_def)
  qed
  have e2: "e2 = None"
  proof (rule ccontr)
    assume "e2 \<noteq> None"
    then obtain err where "e2 = Some err" by auto
    with assms lr e1 pf lz show False by (simp add: Create_def Let_def)
  qed
  have e3: "e3 = None"
  proof (rule ccontr)
    assume "e3 \<noteq> None"
    then obtain err where "e3 = Some err" by auto
    with assms lr e1 pf lz e2 lm show False by (simp add: Create_def Let_def)
  qed
  have e4: "e4 = None"
  proof (rule ccontr)
    assume "e4 \<noteq> None"
    then obtain err where "e4 = Some err" by auto
    with assms lr e1 pf lz e2 lm e3 ci show False by (simp add: Create_def Let_def)
  qed
  have "ip = ip0"
    using assms lr e1 pf lz e2 lm e3 ci e4
    by (auto simp: Create_def Let_def Load_def Save_def
        split: option.splits file_state.splits)
  with lr e1 pf lz e2 lm e3 ci e4 show ?thesis by simp
qed

text \<open>
  Claim C3. In every run of Create in which Deploy is called and returns an error,
  Create returns the wrapped "error deploying proxy" error and has not touched the
  record store: the file is neither read nor written and holds what it held.
\<close>

theorem Create_deploy_error_leaves_records:
  assumes "Called (Deploy_call ip) \<in> set (drop (length (trace w)) (trace (snd (Create c gcp_locations ans w))))"
    and "Deploy (deployer c) ip = Some e"
  shows "fst (Create c gcp_locations ans w) = Some (Errorf ''error deploying proxy: %v'' [E e])
         \<and> files (snd (Create c gcp_locations ans w)) = files w
         \<and> file_accesses (trace (snd (Create c gcp_locations ans w))) = file_accesses (trace w)
         \<and> saves (trace (snd (Create c gcp_locations ans w))) = saves (trace w)"
proof -
  from Create_deploy_called [OF assms(1)] obtain regions zones machineTypes instanceID where
    "ListRegions (provider c) = (regions, None)"
    "ToUpper (selectedPlatform ans) = ''GCP''"
    "ListZones (provider c) (reverseMap gcp_locations (selectedLocation ans)) = (zones, None)"
    "ListMachineTypes (provider c) (selectedZone ans) = (machineTypes, None)"
    "CreateInstance (provider c)
       (''proxy-'' @ filter (\<lambda>ch. ch \<noteq> CHR ''-'') (selectedZone ans)) (selectedZone ans)
       (if HasSuffix (selectedType ans) '' (recommended)''
        then RecommendedType (provider c) else selectedType ans) = (instanceID, ip, None)"
    by blast
  then show ?thesis
    using assms(2) by (rule Create_deploy_fails_run)
qed

theorem Create_deploy_error_leaves_records_witness:
  "fst (Create (stub_commander (Some (OtherError ''ansible-playbook failed'')) None None)
          [(''r1'', ''Iowa'')] answers_z1 (world_holding [] None))
     = Some (Errorf ''error deploying proxy: %v'' [E (OtherError ''ansible-playbook failed'')])
   \<and> files (snd (Create (stub_commander (Some (OtherError ''ansible-playbook failed'')) None None)
                   [(''r1'', ''Iowa'')] answers_z1 (world_holding [] None)))
     = files (world_holding [] None)
   \<and> file_accesses (trace (snd (Create (stub_commander (Some (OtherError ''ansible-playbook failed'')) None None)
                   [(''r1'', ''Iowa'')] answers_z1 (world_holding [] None)))) = 0"
proof -
  have run: "snd (Create (stub_commander (Some (OtherError ''ansible-playbook failed'')) None None)
                   [(''r1'', ''Iowa'')] answers_z1 (world_holding [] None))
      = (world_holding [] None)
          \<lparr>trace := [Asked ''Choose a cloud platform:'' [''GCP''], Called ListRegions_call,
                     Asked ''Choose a region:'' [''Iowa''], Called (ListZones_call ''r1''),
                     Asked ''Choose a zone:'' [''z1''], Called (ListMachineTypes_call ''z1''),
                     Asked ''Choose a machine type:'' [''m1 (recommended)''],
                     Called (CreateInstance_call ''proxy-z1'' ''z1'' ''m1''),
                     Called (Deploy_call ''34.1.2.3''),
                     Log ''Error deploying proxy %s: %v''
                       [S ''proxy-z1'', E (OtherError ''ansible-playbook failed'')]]\<rparr>"
    by (simp add: Create_def Let_def stub_commander_def stub_provider_def answers_z1_def
        world_holding_def ToUpper_def HasSuffix_def reverseMap_def regionToLocations_def emit_def)
  have called: "Called (Deploy_call ''34.1.2.3'') \<in> set (drop (length (trace (world_holding [] None)))
      (trace (snd (Create (stub_commander (Some (OtherError ''ansible-playbook failed'')) None None)
                   [(''r1'', ''Iowa'')] answers_z1 (world_holding [] None)))))"
    by (simp add: run) (simp add: world_holding_def)
  have failed: "Deploy (deployer (stub_commander (Some (OtherError ''ansible-playbook failed'')) None None))
      ''34.1.2.3'' = Some (OtherError ''ansible-playbook failed'')"
    by (simp add: stub_commander_def)
  show ?thesis
    using Create_deploy_error_leaves_records [OF called failed]
    by (simp add: world_holding_def)
qed

lemma Load_world_holding:
  "Load (recordManager (stub_commander a b d)) (world_holding rs we) =
     ((rs, None), emit (ReadFile ''proxy_records.json'') (world_holding rs we))"
  by (simp add: Load_def Let_def stub_commander_def world_holding_def)

lemma findInstance_examples:
  "findInstance ''p1'' [instance_p1] = Some 0"
  "findInstance ''p1'' [disk_p1] = None"
  "instance_records ''p1'' [disk_p1] = []"
  by (simp_all add: instance_p1_def disk_p1_def instance_records_def)

theorem Delete_not_found_witness:
  "Delete (stub_commander None None None) ''p1'' (world_holding [disk_p1] None)
     = (None, (world_holding [disk_p1] None)
               \<lparr>trace := [ReadFile ''proxy_records.json'',
                          Print ''Proxy not found: %s\<newline>'' [S ''p1'']]\<rparr>)"
  using Delete_not_found [OF Load_world_holding findInstance_examples(3)]
  by (simp add: stub_commander_def world_holding_def)

theorem Delete_instance_deletion_fails_witness:
  "\<exists>w'. Delete (stub_commander None (Some (OtherError ''quota'')) None) ''p1''
            (world_holding [instance_p1] None) = (None, w')
        \<and> files w' = files (world_holding [instance_p1] None)
        \<and> saves (trace w') = []
        \<and> calls (trace w') = [GetInstanceInfo_call ''z1'' ''p1'', DeleteInstance_call ''z1'' ''p1'']"
proof -
  have failed: "DeleteInstance (provider (stub_commander None (Some (OtherError ''quota'')) None))
      (Zone ([instance_p1] ! 0)) (InstanceID ([instance_p1] ! 0)) = Some (OtherError ''quota'')"
    by (simp add: stub_commander_def stub_provider_def)
  from Delete_instance_deletion_fails [OF Load_world_holding findInstance_examples(1) failed]
  show ?thesis
    by (auto simp: world_holding_def instance_p1_def)
qed

text \<open>
  Claim C7 as stated fails: DeleteInstance returns an error and Delete returns nil, not
  a wrapped error.
\<close>

theorem Delete_instance_deletion_fails_counterexample:
  "DeleteInstance (provider (stub_commander None (Some (OtherError ''quota'')) None)) ''z1'' ''p1''
     = Some (OtherError ''quota'')
   \<and> fst (Delete (stub_commander None (Some (OtherError ''quota'')) None) ''p1''
            (world_holding [instance_p1] None)) = None"
  by (simp add: Delete_def Load_world_holding findInstance_examples)
    (simp add: stub_commander_def stub_provider_def instance_p1_def Let_def)




section \<open>Readiness probing: waitForSSH, deployProxy and Deploy\<close>

lemma dials_simps [simp]:
  "dials [] = 0"
  "dials (tr @ tr') = dials tr + dials tr'"
  "dials (Dialed host port k # tr) = Suc (dials tr)"
  "dials (Paused d # tr) = dials tr"
  "dials (Wrote f # tr) = dials tr"
  "dials (Println f as # tr) = dials tr"
  by (simp_all add: dials_def)

lemma ssh_runs_simps [simp]:
  "ssh_runs [] = 0"
  "ssh_runs (tr @ tr') = ssh_runs tr + ssh_runs tr'"
  "ssh_runs (Ran c k # tr) = Suc (ssh_runs tr)"
  "ssh_runs (Paused d # tr) = ssh_runs tr"
  "ssh_runs (Wrote f # tr) = ssh_runs tr"
  "ssh_runs (Removed f # tr) = ssh_runs tr"
  "ssh_runs (Started c # tr) = ssh_runs tr"
  "ssh_runs (Println f as # tr) = ssh_runs tr"
  by (simp_all add: ssh_runs_def)

declare waitForSSH_loop.simps [simp del]

declare Deploy_ssh_loop.simps [simp del]

lemma waitForSSH_loop_never_accepting:
  assumes "\<forall>k. snd (net_DialTimeout h k) \<noteq> None"
  shows "fst (waitForSSH_loop h host port timeout deadline now k tr)
           = Some (Errorf ''SSH not ready after %s'' [I (int timeout)])
         \<and> (Started c \<in> set (fst (snd (waitForSSH_loop h host port timeout deadline now k tr)))
              \<longleftrightarrow> Started c \<in> set tr)"
  using assms
proof (induction h host port timeout deadline now k tr rule: waitForSSH_loop.induct)
  case (1 h host port timeout deadline now k tr)
  show ?case
  proof (cases "now < deadline")
    case False
    then show ?thesis by (subst (1 2) waitForSSH_loop.simps) simp
  next
    case True
    obtain d r where dr: "net_DialTimeout h k = (d, r)" by (cases "net_DialTimeout h k")
    from "1.prems" have "snd (net_DialTimeout h k) \<noteq> None" by blast
    with dr obtain err where r: "r = Some err" by auto
    have IH: "fst (waitForSSH_loop h host port timeout deadline (now + d + 2 * Second) (Suc k)
                 (tr @ [Dialed host port k, Paused (2 * Second)]))
           = Some (Errorf ''SSH not ready after %s'' [I (int timeout)])
         \<and> (Started c \<in> set (fst (snd (waitForSSH_loop h host port timeout deadline
                 (now + d + 2 * Second) (Suc k) (tr @ [Dialed host port k, Paused (2 * Second)]))))
              \<longleftrightarrow> Started c \<in> set (tr @ [Dialed host port k, Paused (2 * Second)]))"
      using "1.IH" [OF True dr [symmetric] r] "1.prems" by simp
    from IH True dr r show ?thesis
      by (subst (1 2) waitForSSH_loop.simps) simp
  qed
qed

lemma waitForSSH_loop_dials:
  "deadline \<le> now + n * (2 * Second) \<Longrightarrow>
   dials (fst (snd (waitForSSH_loop h host port timeout deadline now k tr))) \<le> dials tr + n"
proof (induction n arbitrary: now k tr)
  case 0
  then have "\<not> now < deadline" by simp
  then show ?case by (subst waitForSSH_loop.simps) simp
next
  case (Suc n)
  show ?case
  proof (cases "now < deadline")
    case False
    then show ?thesis by (subst waitForSSH_loop.simps) simp
  next
    case True
    obtain d r where dr: "net_DialTimeout h k = (d, r)" by (cases "net_DialTimeout h k")
    show ?thesis
    proof (cases r)
      case None
      with True dr show ?thesis
        by (subst waitForSSH_loop.simps) simp
    next
      case (Some err)
      have "deadline \<le> (now + d + 2 * Second) + n * (2 * Second)"
        using Suc.prems by simp
      from Suc.IH [OF this, of "Suc k" "tr @ [Dialed host port k, Paused (2 * Second)]"]
        True dr Some
      show ?thesis
        by (subst waitForSSH_loop.simps) simp
    qed
  qed
qed

lemma waitForSSH_never_accepting:
  assumes "\<forall>k. snd (net_DialTimeout h k) \<noteq> None"
  shows "fst (waitForSSH h host port (n * (2 * Second)) now)
           = Some (Errorf ''SSH not ready after %s'' [I (int (n * (2 * Second)))])
         \<and> dials (fst (snd (waitForSSH h host port (n * (2 * Second)) now))) \<le> n"
  using waitForSSH_loop_never_accepting [OF assms,
      where host = host and port = port and timeout = "n * (2 * Second)"
        and deadline = "now + n * (2 * Second)" and now = now and k = 0 and tr = "[]"]
    waitForSSH_loop_dials [of "now + n * (2 * Second)" now n h host port "n * (2 * Second)" 0 "[]"]
  by (simp add: waitForSSH_def)

lemma waitForSSH_six_seconds_three_dials:
  assumes "\<forall>k. snd (net_DialTimeout h k) \<noteq> None"
  shows "fst (waitForSSH h host port (6 * Second) now)
           = Some (Errorf ''SSH not ready after %s'' [I (int (6 * Second))])
         \<and> dials (fst (snd (waitForSSH h host port (6 * Second) now))) \<le> 3"
proof -
  have "3 * (2 * Second) = 6 * Second" by simp
  with waitForSSH_never_accepting [OF assms, of host port 3 now] show ?thesis
    by (simp only:)
qed

lemma deployProxy_aborts_when_not_ready:
  assumes "\<forall>k. snd (net_DialTimeout h k) \<noteq> None"
    and "os_WriteFile h ''inventory.ini'' = None" and "os_WriteFile h ''playbook.yml'' = None"
  shows "fst (deployProxy h ip now)
           = Some (Errorf ''SSH not ready: %v''
                     [E (Errorf ''SSH not ready after %s'' [I (int (60 * Second))])])
         \<and> \<not> playbook_started (snd (deployProxy h ip now))"
proof -
  obtain r tr' now' where w: "waitForSSH h ip 22 (60 * Second) now = (r, tr', now')"
    by (cases "waitForSSH h ip 22 (60 * Second) now")
  from waitForSSH_loop_never_accepting [OF assms(1),
      where host = ip and port = 22 and timeout = "60 * Second"
        and deadline = "now + 60 * Second" and now = now and k = 0 and tr = "[]"
        and c = "''ansible-playbook''"] w
  have "r = Some (Errorf ''SSH not ready after %s'' [I (int (60 * Second))])"
    "Started ''ansible-playbook'' \<notin> set tr'"
    by (simp_all add: waitForSSH_def)
  with w assms(2,3) show ?thesis
    by (simp add: deployProxy_def playbook_started_def)
qed

lemma Deploy_ssh_loop_all_fail:
  "\<forall>j<30. ssh_Run h j \<noteq> None \<Longrightarrow> i \<le> 30 \<Longrightarrow>
   ssh_runs (Deploy_ssh_loop h i tr) = ssh_runs tr + (30 - i)"
proof (induction h i tr rule: Deploy_ssh_loop.induct)
  case (1 h i tr)
  show ?case
  proof (cases "i < 30")
    case False
    with "1.prems" show ?thesis by (subst Deploy_ssh_loop.simps) simp
  next
    case True
    with "1.prems" have "ssh_Run h i \<noteq> None" by blast
    then obtain err where err: "ssh_Run h i = Some err" by auto
    have "ssh_runs (Deploy_ssh_loop h (Suc i)
             (tr @ [Ran ''ssh'' i,
                    Println ''SSH not ready, retrying in 2 seconds (%d/30)...\<newline>'' [I (int i + 1)],
                    Paused (2 * Second)]))
        = ssh_runs (tr @ [Ran ''ssh'' i,
                    Println ''SSH not ready, retrying in 2 seconds (%d/30)...\<newline>'' [I (int i + 1)],
                    Paused (2 * Second)]) + (30 - Suc i)"
      using "1.IH" [of err] True err "1.prems" by simp
    with True err show ?thesis
      by (subst Deploy_ssh_loop.simps) simp
  qed
qed

lemma Deploy_runs_playbook_whatever_the_probe_saw:
  assumes "\<forall>j<30. ssh_Run h j \<noteq> None"
    and "os_WriteFile h ''inventory.ini'' = None" and "os_WriteFile h ''playbook.yml'' = None"
    and "cmd_StdoutPipe h = None" and "cmd_StderrPipe h = None" and "cmd_Start h = None"
  shows "ssh_runs (snd (AnsibleProxyDeployer_Deploy d h ip)) = 30
         \<and> playbook_started (snd (AnsibleProxyDeployer_Deploy d h ip))
         \<and> fst (AnsibleProxyDeployer_Deploy d h ip)
             = map_option (\<lambda>err. Errorf ''ansible-playbook failed: %v'' [E err]) (cmd_Wait h)"
proof -
  define tr where "tr = Deploy_ssh_loop h 0
      [Wrote ''inventory.ini'', Wrote ''playbook.yml'', Println ''Waiting for SSH to be ready...'' []]"
  have runs: "ssh_runs tr = 30"
    using Deploy_ssh_loop_all_fail [OF assms(1), of 0
      "[Wrote ''inventory.ini'', Wrote ''playbook.yml'', Println ''Waiting for SSH to be ready...'' []]"]
    by (simp add: tr_def)
  have "AnsibleProxyDeployer_Deploy d h ip =
      (case run_playbook h tr of
         (r, tr') \<Rightarrow> (r, tr' @ [Removed ''playbook.yml'', Removed ''inventory.ini'']))"
    using assms(2,3) by (simp add: AnsibleProxyDeployer_Deploy_def tr_def)
  then show ?thesis
    using runs assms(4,5,6)
    by (cases "cmd_Wait h") (simp_all add: run_playbook_def Let_def playbook_started_def)
qed

text \<open>
  Claim C5 fails for \<^verbatim>\<open>AnsibleProxyDeployer.Deploy\<close>. On a host where every
  \<^verbatim>\<open>ssh ... exit\<close> fails, \<open>Deploy\<close> runs it thirty times, reports no not-ready
  failure and starts \<^verbatim>\<open>ansible-playbook\<close>; the error it returns is that of the playbook.
  On the same host the earlier \<open>waitForSSH\<close>, with a timeout of six seconds, gives up
  after three dials with the not-ready error, and the earlier \<open>deployProxy\<close> returns
  that failure without starting the playbook.
\<close>

theorem Deploy_starts_playbook_on_unreachable_host:
  "ssh_runs (snd (AnsibleProxyDeployer_Deploy d unreachable_host ''34.1.2.3'')) = 30
   \<and> playbook_started (snd (AnsibleProxyDeployer_Deploy d unreachable_host ''34.1.2.3''))
   \<and> fst (AnsibleProxyDeployer_Deploy d unreachable_host ''34.1.2.3'')
       = Some (Errorf ''ansible-playbook failed: %v'' [E (OtherError ''exit status 4'')])
   \<and> fst (waitForSSH unreachable_host ''34.1.2.3'' 22 (6 * Second) 0)
       = Some (Errorf ''SSH not ready after %s'' [I (int (6 * Second))])
   \<and> dials (fst (snd (waitForSSH unreachable_host ''34.1.2.3'' 22 (6 * Second) 0))) \<le> 3
   \<and> fst (deployProxy unreachable_host ''34.1.2.3'' 0)
       = Some (Errorf ''SSH not ready: %v''
                 [E (Errorf ''SSH not ready after %s'' [I (int (60 * Second))])])
   \<and> \<not> playbook_started (snd (deployProxy unreachable_host ''34.1.2.3'' 0))"
proof -
  have h: "\<forall>j<30. ssh_Run unreachable_host j \<noteq> None"
    "\<forall>k. snd (net_DialTimeout unreachable_host k) \<noteq> None"
    "os_WriteFile unreachable_host ''inventory.ini'' = None"
    "os_WriteFile unreachable_host ''playbook.yml'' = None"
    "cmd_StdoutPipe unreachable_host = None" "cmd_StderrPipe unreachable_host = None"
    "cmd_Start unreachable_host = None"
    "cmd_Wait unreachable_host = Some (OtherError ''exit status 4'')"
    by (simp_all add: unreachable_host_def)
  from Deploy_runs_playbook_whatever_the_probe_saw [OF h(1,3,4,5,6,7), of d "''34.1.2.3''"]
    waitForSSH_six_seconds_three_dials [OF h(2), of "''34.1.2.3''" 22 0]
    deployProxy_aborts_when_not_ready [OF h(2,3,4), of "''34.1.2.3''" 0]
  show ?thesis by (simp add: h(8))
qed

end
